theory Spec2Isabelle
  imports Complex_Main
begin

section \<open>Data model of \<open>ControlAforoCruceLinea\<close> (src/aforo/v8.py)\<close>

text \<open>
  Python numbers: the integers of the program (pixel coordinates, identity numbers) are
  \<^typ>\<open>int\<close>; its floats (the conversion factor, heights in centimetres, distances,
  the mean of two samples) are the real numbers they denote, with exact arithmetic.
  The string tags of the source are datatypes: the categories \<open>"Sin calibrar"\<close>,
  \<open>"Nino/a"\<close> (written with n-tilde in the source), \<open>"Adolescente"\<close>, \<open>"Mujer"\<close>, \<open>"Hombre"\<close>; the movements
  \<open>"entrada"\<close>, \<open>"salida"\<close>; the zones \<open>"Arriba"\<close>, \<open>"Abajo"\<close>.
  An exception that nothing in the source catches is an error value.
\<close>

datatype py_error = ZeroDivisionError | TypeError

datatype categoria = Sin_calibrar | Nino_a | Adolescente | Mujer | Hombre

datatype movimiento = Entrada | Salida

datatype zona = Arriba | Abajo

datatype evento = EVENT_LBUTTONDOWN | EVENT_OTRO

type_synonym punto = "int \<times> int"

type_synonym caja = "int \<times> int \<times> int \<times> int"

type_synonym bgr = "nat \<times> nat \<times> nat"

text \<open>The dictionary stored per identity in \<open>personas_trackeadas\<close>.\<close>

record persona =
  bbox :: caja
  centro :: punto
  pies :: punto
  altura_px :: int
  altura_cm :: "real option"
  clasificacion :: categoria
  color :: bgr

text \<open>
  The attributes of the object that the tracking, calibration and crossing code reads or
  writes. \<open>personas_trackeadas\<close> is a Python dict, whose iteration order is the insertion
  order: an association list. \<open>historial_posicion\<close> is a \<open>defaultdict(list)\<close>: a map,
  where a missing key reads as the empty list. The database connection, the model and the
  video reader are outside this development.
\<close>

record sistema =
  y_cruce :: "int option"
  posicion_y_cruce :: real
  personas_trackeadas :: "(int \<times> persona) list"
  siguiente_id :: int
  historial_posicion :: "int \<rightharpoonup> int list"
  ids_cruzados :: "int set"
  total_entradas :: nat
  total_salidas :: nat
  calibrado :: bool
  altura_real_referencia_cm :: "real option"
  altura_pixeles_referencia :: "int option"
  factor_conversion :: "real option"
  modo_calibracion :: bool
  punto1_calibracion :: "punto option"
  punto2_calibracion :: "punto option"

text \<open>\<open>distancia_maxima_tracking\<close> and \<open>max_historial\<close> are set in \<open>__init__\<close> and
  never assigned again.\<close>

definition distancia_maxima_tracking :: real where
  "distancia_maxima_tracking = 100"

definition max_historial :: nat where
  "max_historial = 5"

text \<open>The state that \<open>__init__\<close> builds.\<close>

definition sistema_inicial :: sistema where
  "sistema_inicial =
     \<lparr> y_cruce = None, posicion_y_cruce = 1 / 2, personas_trackeadas = [],
       siguiente_id = 0, historial_posicion = Map.empty, ids_cruzados = {},
       total_entradas = 0, total_salidas = 0, calibrado = False,
       altura_real_referencia_cm = None, altura_pixeles_referencia = None,
       factor_conversion = None, modo_calibracion = False,
       punto1_calibracion = None, punto2_calibracion = None \<rparr>"

section \<open>Calibration\<close>

definition iniciar_calibracion :: "sistema \<Rightarrow> real \<Rightarrow> sistema" where
  "iniciar_calibracion s altura_real =
     s\<lparr> altura_real_referencia_cm := Some altura_real, modo_calibracion := True,
        punto1_calibracion := None, punto2_calibracion := None \<rparr>"

definition mouse_callback_calibracion :: "sistema \<Rightarrow> evento \<Rightarrow> int \<Rightarrow> int \<Rightarrow> sistema" where
  "mouse_callback_calibracion s ev x y =
     (if ev = EVENT_LBUTTONDOWN \<and> modo_calibracion s then
        (if punto1_calibracion s = None then s\<lparr> punto1_calibracion := Some (x, y) \<rparr>
         else if punto2_calibracion s = None then s\<lparr> punto2_calibracion := Some (x, y) \<rparr>
         else s)
      else s)"

text \<open>
  \<open>confirmar_calibracion\<close>: a tuple is true in Python, \<open>None\<close> is false, so the test is
  that both points are set. The quotient \<open>altura_real_referencia_cm / altura_pixeles_referencia\<close>
  raises \<open>TypeError\<close> when the reference height was never given and \<open>ZeroDivisionError\<close>
  when the two points have the same ordinate; neither is caught by the caller
  (\<open>ejecutar\<close>), so the program stops there.
\<close>

definition confirmar_calibracion :: "sistema \<Rightarrow> py_error + (bool \<times> sistema)" where
  "confirmar_calibracion s =
     (case (punto1_calibracion s, punto2_calibracion s) of
        (Some p1, Some p2) \<Rightarrow>
          (let px = \<bar>snd p2 - snd p1\<bar>;
               s1 = s\<lparr> altura_pixeles_referencia := Some px \<rparr>
           in case altura_real_referencia_cm s1 of
                None \<Rightarrow> Inl TypeError
              | Some cm \<Rightarrow>
                  if px = 0 then Inl ZeroDivisionError
                  else Inr (True, s1\<lparr> factor_conversion := Some (cm / real_of_int px),
                                      calibrado := True, modo_calibracion := False \<rparr>))
      | _ \<Rightarrow> Inr (False, s))"

definition reiniciar_calibracion :: "sistema \<Rightarrow> sistema" where
  "reiniciar_calibracion s = s\<lparr> punto1_calibracion := None, punto2_calibracion := None \<rparr>"

text \<open>
  Python's \<open>round(x, 1)\<close>: the nearest multiple of one tenth, a tie going to the even
  multiple.
\<close>

definition redondear_par :: "real \<Rightarrow> int" where
  "redondear_par y =
     (let f = \<lfloor>y\<rfloor>; d = y - real_of_int f
      in if d < 1 / 2 then f else if 1 / 2 < d then f + 1
         else if even f then f else f + 1)"

definition py_round1 :: "real \<Rightarrow> real" where
  "py_round1 x = real_of_int (redondear_par (x * 10)) / 10"

definition estimar_altura_real :: "sistema \<Rightarrow> int \<Rightarrow> real option" where
  "estimar_altura_real s h =
     (if \<not> calibrado s \<or> factor_conversion s = None then None
      else Some (py_round1 (real_of_int h * the (factor_conversion s))))"

section \<open>Classification by height\<close>

definition calcular_altura_persona :: "caja \<Rightarrow> int" where
  "calcular_altura_persona b = (case b of (x1, y1, x2, y2) \<Rightarrow> y2 - y1)"

definition clasificar_persona :: "sistema \<Rightarrow> int \<Rightarrow> int \<Rightarrow> categoria \<times> real option \<times> bgr" where
  "clasificar_persona s h w =
     (case estimar_altura_real s h of
        None \<Rightarrow> (Sin_calibrar, None, (128, 128, 128))
      | Some cm \<Rightarrow>
          (let proporcion = (if 0 < w then real_of_int h / real_of_int w else 0)
           in if cm < 110 then (Nino_a, Some cm, (255, 200, 0))
              else if cm < 150 then (Adolescente, Some cm, (0, 200, 255))
              else if 28 / 10 < proporcion then (Mujer, Some cm, (255, 0, 255))
              else (Hombre, Some cm, (255, 100, 0))))"

section \<open>Geometry\<close>

text \<open>Python's \<open>int(x)\<close> on a float: truncation towards zero.\<close>

definition py_int :: "real \<Rightarrow> int" where
  "py_int x = (if 0 \<le> x then \<lfloor>x\<rfloor> else \<lceil>x\<rceil>)"

definition calcular_distancia_euclidiana :: "punto \<Rightarrow> punto \<Rightarrow> real" where
  "calcular_distancia_euclidiana p1 p2 =
     sqrt (real_of_int ((fst p1 - fst p2)\<^sup>2 + (snd p1 - snd p2)\<^sup>2))"

definition obtener_centro_bbox :: "caja \<Rightarrow> punto" where
  "obtener_centro_bbox b =
     (case b of (x1, y1, x2, y2) \<Rightarrow>
        (py_int (real_of_int (x1 + x2) / 2), py_int (real_of_int (y1 + y2) / 2)))"

definition obtener_pies_persona :: "caja \<Rightarrow> punto" where
  "obtener_pies_persona b =
     (case b of (x1, y1, x2, y2) \<Rightarrow> (py_int (real_of_int (x1 + x2) / 2), y2))"

section \<open>Tracking\<close>

text \<open>\<open>d[k] = v\<close> on a dict: an existing key keeps its place, a new key goes last.\<close>

fun dict_set :: "int \<Rightarrow> 'v \<Rightarrow> (int \<times> 'v) list \<Rightarrow> (int \<times> 'v) list" where
  "dict_set k v [] = [(k, v)]"
| "dict_set k v ((k', v') # kvs) =
     (if k = k' then (k, v) # kvs else (k', v') # dict_set k v kvs)"

definition claves :: "(int \<times> 'v) list \<Rightarrow> int set" where
  "claves kvs = fst ` set kvs"

text \<open>The record that \<open>trackear_personas\<close> stores for a detection.\<close>

definition info_persona :: "sistema \<Rightarrow> caja \<Rightarrow> persona" where
  "info_persona s b =
     (let h = calcular_altura_persona b;
          w = fst (snd (snd b)) - fst b;
          r = clasificar_persona s h w
      in \<lparr> bbox = b, centro = obtener_centro_bbox b, pies = obtener_pies_persona b,
           altura_px = h, altura_cm = fst (snd r), clasificacion = fst r,
           color = snd (snd r) \<rparr>)"

text \<open>
  The inner loop of \<open>trackear_personas\<close> over \<open>personas_trackeadas.items()\<close>; the
  accumulator is \<open>(mejor_id, mejor_dist)\<close>.
\<close>

fun buscar_mejor ::
  "(int \<times> persona) list \<Rightarrow> int set \<Rightarrow> punto \<Rightarrow> int option \<times> real \<Rightarrow> int option \<times> real" where
  "buscar_mejor [] ids_usados c acc = acc"
| "buscar_mejor ((id_persona, info) # resto) ids_usados c (mejor_id, mejor_dist) =
     (if id_persona \<in> ids_usados then buscar_mejor resto ids_usados c (mejor_id, mejor_dist)
      else if calcular_distancia_euclidiana c (centro info) < mejor_dist
           then buscar_mejor resto ids_usados c
                  (Some id_persona, calcular_distancia_euclidiana c (centro info))
           else buscar_mejor resto ids_usados c (mejor_id, mejor_dist))"

text \<open>The body of the outer loop, for one detection; the state of the loop is
  \<open>(personas_actual, ids_usados)\<close> and the object (for \<open>siguiente_id\<close>).\<close>

definition asignar_deteccion ::
  "sistema \<Rightarrow> caja \<Rightarrow> (int \<times> persona) list \<times> int set
     \<Rightarrow> (int \<times> persona) list \<times> int set \<times> sistema" where
  "asignar_deteccion s b st =
     (case st of (personas_actual, ids_usados) \<Rightarrow>
        (case fst (buscar_mejor (personas_trackeadas s) ids_usados (obtener_centro_bbox b)
                     (None, distancia_maxima_tracking)) of
           Some mejor_id \<Rightarrow>
             (dict_set mejor_id (info_persona s b) personas_actual,
              insert mejor_id ids_usados, s)
         | None \<Rightarrow>
             (dict_set (siguiente_id s) (info_persona s b) personas_actual,
              ids_usados, s\<lparr> siguiente_id := siguiente_id s + 1 \<rparr>)))"

fun bucle_detecciones ::
  "sistema \<Rightarrow> caja list \<Rightarrow> (int \<times> persona) list \<times> int set
     \<Rightarrow> (int \<times> persona) list \<times> int set \<times> sistema" where
  "bucle_detecciones s [] st = (fst st, snd st, s)"
| "bucle_detecciones s (b # bs) st =
     (case asignar_deteccion s b st of
        (personas_actual, ids_usados, s1) \<Rightarrow>
          bucle_detecciones s1 bs (personas_actual, ids_usados))"

text \<open>\<open>trackear_personas\<close>; its parameter \<open>altura\<close> is never read and is left out.\<close>

definition trackear_personas :: "sistema \<Rightarrow> caja list \<Rightarrow> (int \<times> persona) list \<times> sistema" where
  "trackear_personas s detecciones =
     (case bucle_detecciones s detecciones ([], {}) of
        (personas_actual, ids_usados, s1) \<Rightarrow>
          (let ids_fuera = claves (personas_trackeadas s1) - claves personas_actual
           in (personas_actual,
               s1\<lparr> historial_posicion :=
                      (\<lambda>k. if k \<in> ids_fuera then None else historial_posicion s1 k),
                    ids_cruzados := ids_cruzados s1 - ids_fuera,
                    personas_trackeadas := personas_actual \<rparr>)))"

section \<open>Line crossing\<close>

definition zona_de :: "real \<Rightarrow> int \<Rightarrow> zona" where
  "zona_de y l = (if y < real_of_int l then Arriba else Abajo)"

definition np_mean :: "int list \<Rightarrow> real" where
  "np_mean ys = real_of_int (sum_list ys) / real (length ys)"

text \<open>The history of an identity after \<open>append\<close> and the eviction of one sample.\<close>

definition historial_tras :: "sistema \<Rightarrow> int \<Rightarrow> int \<Rightarrow> int list" where
  "historial_tras s id_persona y_pies =
     (let h = (case historial_posicion s id_persona of None \<Rightarrow> [] | Some h0 \<Rightarrow> h0) @ [y_pies]
      in if max_historial < length h then tl h else h)"

text \<open>\<open>zona_anterior\<close>, from \<open>y_inicial = np.mean(historial[:2])\<close>.\<close>

definition zona_anterior :: "int list \<Rightarrow> int \<Rightarrow> zona" where
  "zona_anterior h l = zona_de (np_mean (take 2 h)) l"

text \<open>
  \<open>detectar_cruce_linea\<close>. With \<open>y_cruce\<close> still \<open>None\<close> the comparison
  \<open>y_pies < y_cruce\<close> raises \<open>TypeError\<close>.
\<close>

definition detectar_cruce_linea ::
  "sistema \<Rightarrow> int \<Rightarrow> int \<Rightarrow> py_error + (movimiento option \<times> sistema)" where
  "detectar_cruce_linea s id_persona y_pies =
     (let h = historial_tras s id_persona y_pies;
          s1 = s\<lparr> historial_posicion := (historial_posicion s)(id_persona \<mapsto> h) \<rparr>
      in if length h < 2 then Inr (None, s1)
         else case y_cruce s1 of
                None \<Rightarrow> Inl TypeError
              | Some l \<Rightarrow>
                  (let zona_actual = zona_de (real_of_int y_pies) l;
                       zona_ant = zona_anterior h l
                   in if zona_actual \<noteq> zona_ant \<and> id_persona \<notin> ids_cruzados s1 then
                        (if zona_ant = Arriba \<and> zona_actual = Abajo
                         then Inr (Some Entrada, s1\<lparr> ids_cruzados := insert id_persona (ids_cruzados s1) \<rparr>)
                         else if zona_ant = Abajo \<and> zona_actual = Arriba
                         then Inr (Some Salida, s1\<lparr> ids_cruzados := insert id_persona (ids_cruzados s1) \<rparr>)
                         else Inr (None, s1))
                      else Inr (None, s1)))"

section \<open>The frame pipeline\<close>

text \<open>A movement as \<open>detectar_y_trackear\<close> reports it: \<open>tipo\<close>, \<open>clasificacion\<close>,
  \<open>altura_px\<close>, \<open>altura_cm\<close>.\<close>

type_synonym registro = "movimiento \<times> categoria \<times> int \<times> real option"

text \<open>The loop of \<open>detectar_y_trackear\<close> over \<open>personas.items()\<close> (the drawing left out).\<close>

fun bucle_personas ::
  "sistema \<Rightarrow> (int \<times> persona) list \<Rightarrow> registro list \<Rightarrow> py_error + (registro list \<times> sistema)" where
  "bucle_personas s [] movimientos = Inr (movimientos, s)"
| "bucle_personas s ((idp, info) # resto) movimientos =
     (case detectar_cruce_linea s idp (snd (pies info)) of
        Inl e \<Rightarrow> Inl e
      | Inr (mov, s1) \<Rightarrow>
          (case mov of
             Some m \<Rightarrow>
               bucle_personas s1 resto
                 (movimientos @ [(m, clasificacion info, altura_px info, altura_cm info)])
           | None \<Rightarrow> bucle_personas s1 resto movimientos))"

text \<open>
  \<open>detectar_y_trackear\<close>, on the height of the frame and the boxes that the detector
  reported with confidence above 0.5.
\<close>

definition detectar_y_trackear ::
  "sistema \<Rightarrow> int \<Rightarrow> caja list
     \<Rightarrow> py_error + ((int \<times> persona) list \<times> registro list \<times> sistema)" where
  "detectar_y_trackear s altura detecciones =
     (let s1 = (if y_cruce s = None
                then s\<lparr> y_cruce := Some (py_int (real_of_int altura * posicion_y_cruce s)) \<rparr>
                else s)
      in case trackear_personas s1 detecciones of
           (personas, s2) \<Rightarrow>
             if modo_calibracion s2 then Inr (personas, [], s2)
             else (case bucle_personas s2 personas [] of
                     Inl e \<Rightarrow> Inl e
                   | Inr (movimientos, s3) \<Rightarrow> Inr (personas, movimientos, s3)))"

text \<open>
  The part of the loop of \<open>ejecutar\<close> that processes a frame and records its movements.
  \<open>registrar_movimiento\<close> writes to the database, which is outside this development: it
  is the parameter \<open>reg\<close>, any function from the object and a movement to the object
  afterwards.
\<close>

definition procesar_frame ::
  "(sistema \<Rightarrow> registro \<Rightarrow> sistema) \<Rightarrow> sistema \<Rightarrow> int \<Rightarrow> caja list \<Rightarrow> py_error + sistema" where
  "procesar_frame reg s altura detecciones =
     (case detectar_y_trackear s altura detecciones of
        Inl e \<Rightarrow> Inl e
      | Inr (personas, movimientos, s1) \<Rightarrow>
          Inr (if \<not> modo_calibracion s1 then foldl reg s1 movimientos else s1))"

section \<open>Sequences of calls\<close>

text \<open>The foot samples \<open>ys\<close> of one identity, observed one after the other; the result
  lists what each call returned.\<close>

fun observar_muestras ::
  "sistema \<Rightarrow> int \<Rightarrow> int list \<Rightarrow> py_error + (movimiento option list \<times> sistema)" where
  "observar_muestras s i [] = Inr ([], s)"
| "observar_muestras s i (y # ys) =
     (case detectar_cruce_linea s i y of
        Inl e \<Rightarrow> Inl e
      | Inr (mov, s1) \<Rightarrow>
          (case observar_muestras s1 i ys of
             Inl e \<Rightarrow> Inl e
           | Inr (movs, s2) \<Rightarrow> Inr (mov # movs, s2)))"

text \<open>
  A stretch of the life of the object: calls of \<open>detectar_cruce_linea\<close> for any
  identities and calls of \<open>trackear_personas\<close>, in any order. The result lists, for each
  call of \<open>detectar_cruce_linea\<close>, the identity and what the call returned.
\<close>

datatype paso = Observar int int | Trackear "caja list"

fun ejecutar_pasos ::
  "sistema \<Rightarrow> paso list \<Rightarrow> py_error + ((int \<times> movimiento option) list \<times> sistema)" where
  "ejecutar_pasos s [] = Inr ([], s)"
| "ejecutar_pasos s (Observar i y # ps) =
     (case detectar_cruce_linea s i y of
        Inl e \<Rightarrow> Inl e
      | Inr (mov, s1) \<Rightarrow>
          (case ejecutar_pasos s1 ps of
             Inl e \<Rightarrow> Inl e
           | Inr (res, s2) \<Rightarrow> Inr ((i, mov) # res, s2)))"
| "ejecutar_pasos s (Trackear ds # ps) = ejecutar_pasos (snd (trackear_personas s ds)) ps"

text \<open>The identity \<open>i\<close> is not retired along the steps: every call of
  \<open>trackear_personas\<close> returns a mapping that has it.\<close>

fun sigue_viva :: "int \<Rightarrow> sistema \<Rightarrow> paso list \<Rightarrow> bool" where
  "sigue_viva i s [] = True"
| "sigue_viva i s (Observar j y # ps) =
     (case detectar_cruce_linea s j y of
        Inl e \<Rightarrow> True
      | Inr (mov, s1) \<Rightarrow> sigue_viva i s1 ps)"
| "sigue_viva i s (Trackear ds # ps) =
     (i \<in> claves (fst (trackear_personas s ds)) \<and> sigue_viva i (snd (trackear_personas s ds)) ps)"

definition eventos_de :: "int \<Rightarrow> (int \<times> movimiento option) list \<Rightarrow> movimiento list" where
  "eventos_de i res = [m. (j, Some m) \<leftarrow> res, j = i]"

text \<open>The orders of a calibration session: the key that starts it, a click, the keys
  \<open>r\<close> and \<open>c\<close>. The result lists what each \<open>confirmar_calibracion\<close> returned.\<close>

datatype orden = Iniciar real | Click int int | Reiniciar | Confirmar

fun sesion_calibracion :: "sistema \<Rightarrow> orden list \<Rightarrow> py_error + (bool list \<times> sistema)" where
  "sesion_calibracion s [] = Inr ([], s)"
| "sesion_calibracion s (Iniciar cm # os) = sesion_calibracion (iniciar_calibracion s cm) os"
| "sesion_calibracion s (Click x y # os) =
     sesion_calibracion (mouse_callback_calibracion s EVENT_LBUTTONDOWN x y) os"
| "sesion_calibracion s (Reiniciar # os) = sesion_calibracion (reiniciar_calibracion s) os"
| "sesion_calibracion s (Confirmar # os) =
     (case confirmar_calibracion s of
        Inl e \<Rightarrow> Inl e
      | Inr (ok, s1) \<Rightarrow>
          (case sesion_calibracion s1 os of
             Inl e \<Rightarrow> Inl e
           | Inr (oks, s2) \<Rightarrow> Inr (ok # oks, s2)))"

text \<open>
  Every identity number in use is below \<open>siguiente_id\<close>: the keys of
  \<open>personas_trackeadas\<close>, of \<open>historial_posicion\<close> and the members of \<open>ids_cruzados\<close>.
\<close>

definition ids_bajo_siguiente :: "sistema \<Rightarrow> bool" where
  "ids_bajo_siguiente s \<longleftrightarrow>
     (\<forall>k \<in> claves (personas_trackeadas s). k < siguiente_id s) \<and>
     (\<forall>k \<in> ids_cruzados s. k < siguiente_id s) \<and>
     (\<forall>k \<in> dom (historial_posicion s). k < siguiente_id s)"

section \<open>The rule of the first two samples\<close>

text \<open>
  For comparison only, not from the source: what the calls for one identity would
  return if \<open>zona_anterior\<close> came from the mean of the first two samples ever recorded
  (\<open>previas\<close> are all the samples so far, \<open>cruzada\<close> says whether a movement was returned).
\<close>

fun observar_segun_primeras_dos ::
  "int \<Rightarrow> int list \<Rightarrow> bool \<Rightarrow> int list \<Rightarrow> movimiento option list" where
  "observar_segun_primeras_dos l previas cruzada [] = []"
| "observar_segun_primeras_dos l previas cruzada (y # ys) =
     (let todas = previas @ [y]
      in if length todas < 2 then None # observar_segun_primeras_dos l todas cruzada ys
         else if zona_de (real_of_int y) l \<noteq> zona_de (np_mean (take 2 todas)) l \<and> \<not> cruzada
         then Some (if zona_de (real_of_int y) l = Abajo then Entrada else Salida)
                # observar_segun_primeras_dos l todas True ys
         else None # observar_segun_primeras_dos l todas cruzada ys)"

text \<open>The state of the object agrees with the samples \<open>ps\<close> seen so far for the
  identity \<open>i\<close>.\<close>

definition rel_muestras :: "sistema \<Rightarrow> int \<Rightarrow> int \<Rightarrow> int list \<Rightarrow> bool \<Rightarrow> bool" where
  "rel_muestras s i l ps c \<longleftrightarrow>
     y_cruce s = Some l \<and>
     historial_posicion s i = (if ps = [] then None else Some (drop (length ps - 5) ps)) \<and>
     (c \<longleftrightarrow> i \<in> ids_cruzados s) \<and>
     (\<not> c \<and> 2 \<le> length ps \<longrightarrow>
        (\<forall>y \<in> set (tl ps). zona_de (real_of_int y) l = zona_de (np_mean (take 2 ps)) l))"

section \<open>The loop of \<open>ejecutar\<close>\<close>

text \<open>
  What changes the object inside the loop of \<open>ejecutar\<close>: the keys \<open>c\<close> and \<open>r\<close> (which
  act in calibration mode only), a mouse event, a processed frame. Saving the calibration
  writes to the database only.
\<close>

datatype suceso = Tecla_c | Tecla_r | Raton evento int int | Frame int "caja list"

fun paso_ejecutar ::
  "(sistema \<Rightarrow> registro \<Rightarrow> sistema) \<Rightarrow> sistema \<Rightarrow> suceso \<Rightarrow> py_error + sistema" where
  "paso_ejecutar reg s Tecla_c =
     (if modo_calibracion s
      then (case confirmar_calibracion s of Inl e \<Rightarrow> Inl e | Inr (ok, s1) \<Rightarrow> Inr s1)
      else Inr s)"
| "paso_ejecutar reg s Tecla_r =
     Inr (if modo_calibracion s then reiniciar_calibracion s else s)"
| "paso_ejecutar reg s (Raton ev x y) = Inr (mouse_callback_calibracion s ev x y)"
| "paso_ejecutar reg s (Frame altura ds) = procesar_frame reg s altura ds"

fun bucle_ejecutar ::
  "(sistema \<Rightarrow> registro \<Rightarrow> sistema) \<Rightarrow> sistema \<Rightarrow> suceso list \<Rightarrow> py_error + sistema" where
  "bucle_ejecutar reg s [] = Inr s"
| "bucle_ejecutar reg s (e # es) =
     (case paso_ejecutar reg s e of Inl err \<Rightarrow> Inl err | Inr s1 \<Rightarrow> bucle_ejecutar reg s1 es)"

text \<open>\<open>registrar_movimiento\<close> assigns only \<open>total_entradas\<close> and \<open>total_salidas\<close>: it
  leaves the calibration.\<close>

definition solo_registra :: "(sistema \<Rightarrow> registro \<Rightarrow> sistema) \<Rightarrow> bool" where
  "solo_registra reg \<longleftrightarrow>
     (\<forall>s r. calibrado (reg s r) = calibrado s \<and>
            modo_calibracion (reg s r) = modo_calibracion s)"

text \<open>\<open>registrar_movimiento\<close> when the database accepts the first attempt.\<close>

definition registrar_movimiento_ok :: "sistema \<Rightarrow> registro \<Rightarrow> sistema" where
  "registrar_movimiento_ok s r =
     (case fst r of
        Entrada \<Rightarrow> s\<lparr> total_entradas := total_entradas s + 1 \<rparr>
      | Salida \<Rightarrow> s\<lparr> total_salidas := total_salidas s + 1 \<rparr>)"

section \<open>Example states\<close>

text \<open>The object after the calibration of the door of 210 cm: the session started, the
  points (100, 50) and (100, 260) clicked, the calibration confirmed.\<close>

definition sistema_puerta :: sistema where
  "sistema_puerta =
     (case sesion_calibracion sistema_inicial
             [Iniciar 210, Click 100 50, Click 100 260, Confirmar] of
        Inr (oks, s) \<Rightarrow> s
      | Inl e \<Rightarrow> sistema_inicial)"

text \<open>The record of a detection while the system is not calibrated.\<close>

definition persona_en :: "caja \<Rightarrow> persona" where
  "persona_en b = info_persona sistema_inicial b"

text \<open>Two identities tracked: number 0 with centre (90, 50), number 1 with centre
  (10, 50).\<close>

definition sistema_dos_personas :: sistema where
  "sistema_dos_personas = snd (trackear_personas sistema_inicial [(65, 0, 115, 100), (0, 0, 20, 100)])"

text \<open>The object after two frames of 600 rows (the line at 300): a person with the feet
  at 280, then at 310, who has crossed downwards.\<close>

definition sistema_tras_cruce :: sistema where
  "sistema_tras_cruce =
     (case detectar_y_trackear sistema_inicial 600 [(0, 180, 50, 280)] of
        Inl e \<Rightarrow> sistema_inicial
      | Inr (personas, movimientos, s1) \<Rightarrow>
          (case detectar_y_trackear s1 600 [(0, 210, 50, 310)] of
             Inl e \<Rightarrow> sistema_inicial
           | Inr (personas2, movimientos2, s2) \<Rightarrow> s2))"

section \<open>Properties of the calibration\<close>

lemma redondear_par_error: "\<bar>real_of_int (redondear_par y) - y\<bar> \<le> 1 / 2"
  unfolding redondear_par_def Let_def by (auto; linarith)


lemma py_round1_error: "\<bar>py_round1 x - x\<bar> \<le> 1 / 20"
  using redondear_par_error [of "x * 10"] unfolding py_round1_def by (simp add: field_simps; linarith)





lemma sistema_puerta_eq:
  "sistema_puerta =
     sistema_inicial\<lparr> calibrado := True, altura_real_referencia_cm := Some 210,
       altura_pixeles_referencia := Some 210, factor_conversion := Some 1,
       punto1_calibracion := Some (100, 50), punto2_calibracion := Some (100, 260) \<rparr>"
  by (simp add: sistema_puerta_def sistema_inicial_def iniciar_calibracion_def
      mouse_callback_calibracion_def confirmar_calibracion_def)

subsection \<open>Confirming a calibration\<close>

lemma confirmar_calibracion_incompleta:
  "punto1_calibracion s = None \<or> punto2_calibracion s = None \<Longrightarrow>
   confirmar_calibracion s = Inr (False, s)"
  by (auto simp: confirmar_calibracion_def split: option.splits)

lemma confirmar_calibracion_exito:
  "punto1_calibracion s = Some p1 \<Longrightarrow> punto2_calibracion s = Some p2 \<Longrightarrow>
   altura_real_referencia_cm s = Some cm \<Longrightarrow> snd p1 \<noteq> snd p2 \<Longrightarrow>
   confirmar_calibracion s =
     Inr (True, s\<lparr> altura_pixeles_referencia := Some \<bar>snd p2 - snd p1\<bar>,
                    factor_conversion := Some (cm / real_of_int \<bar>snd p2 - snd p1\<bar>),
                    calibrado := True, modo_calibracion := False \<rparr>)"
  by (simp add: confirmar_calibracion_def Let_def)

lemma confirmar_calibracion_degenerada:
  "punto1_calibracion s = Some p1 \<Longrightarrow> punto2_calibracion s = Some p2 \<Longrightarrow>
   altura_real_referencia_cm s = Some cm \<Longrightarrow> snd p1 = snd p2 \<Longrightarrow>
   confirmar_calibracion s = Inl ZeroDivisionError"
  by (simp add: confirmar_calibracion_def Let_def)

lemma confirmar_calibracion_puerta_210:
  "sesion_calibracion sistema_inicial [Iniciar 210, Click 100 50, Click 100 260, Confirmar]
     = Inr ([True], sistema_puerta) \<and>
   altura_pixeles_referencia sistema_puerta = Some 210 \<and>
   factor_conversion sistema_puerta = Some 1 \<and>
   calibrado sistema_puerta \<and> \<not> modo_calibracion sistema_puerta"
  by (simp add: sistema_puerta_def sistema_inicial_def iniciar_calibracion_def
      mouse_callback_calibracion_def confirmar_calibracion_def)

text \<open>
  C3: confirming with fewer than two points fails and changes nothing
  (\<open>confirmar_calibracion_incompleta\<close>), and the door of 210 cm between (100, 50) and
  (100, 260) gives 210 px and the factor 1 (\<open>confirmar_calibracion_puerta_210\<close>). But when
  the two points have the same ordinate the reference is 0 px and the division raises
  \<open>ZeroDivisionError\<close>, which nothing catches: the call does not fail in a controlled way,
  here for the points (100, 50) and (200, 50).
\<close>

theorem confirmar_calibracion_misma_ordenada:
  "sesion_calibracion sistema_inicial [Iniciar 210, Click 100 50, Click 200 50, Confirmar]
     = Inl ZeroDivisionError"
  by (simp add: sistema_inicial_def iniciar_calibracion_def
      mouse_callback_calibracion_def confirmar_calibracion_def)

subsection \<open>Classification\<close>

lemma py_round1_positivo: "150 \<le> py_round1 x \<Longrightarrow> 0 < x"
  using py_round1_error [of x] by linarith

text \<open>
  C7: \<open>clasificar_persona\<close> returns \<open>Sin calibrar\<close> and no height whenever the system is
  not calibrated. Calibrated with factor \<open>f\<close>, with \<open>cm\<close> the estimated height and the
  aspect \<open>h / w\<close> (0 when \<open>w = 0\<close>), the category is \<open>Nino/a\<close> iff \<open>cm < 110\<close>,
  \<open>Adolescente\<close> iff \<open>110 \<le> cm < 150\<close>, and from 150 on \<open>Mujer\<close> iff the aspect is above
  2.8 and \<open>Hombre\<close> otherwise. The source tests \<open>ancho_px > 0\<close>: the two agree for a box
  of non-negative width, and for any width when the factor is positive.
\<close>

theorem clasificar_persona_umbrales:
  "(\<not> calibrado s \<longrightarrow> clasificar_persona s h w = (Sin_calibrar, None, (128, 128, 128))) \<and>
   (calibrado s \<and> factor_conversion s = Some f \<and> (0 \<le> w \<or> 0 < f) \<longrightarrow>
      (let cm = py_round1 (real_of_int h * f);
           aspecto = (if w = 0 then 0 else real_of_int h / real_of_int w);
           r = clasificar_persona s h w
       in estimar_altura_real s h = Some cm \<and> fst (snd r) = Some cm \<and>
          (fst r = Nino_a \<longleftrightarrow> cm < 110) \<and>
          (fst r = Adolescente \<longleftrightarrow> 110 \<le> cm \<and> cm < 150) \<and>
          (fst r = Mujer \<longleftrightarrow> 150 \<le> cm \<and> 28 / 10 < aspecto) \<and>
          (fst r = Hombre \<longleftrightarrow> 150 \<le> cm \<and> \<not> 28 / 10 < aspecto)))"
proof (intro conjI impI)
  assume "\<not> calibrado s"
  then show "clasificar_persona s h w = (Sin_calibrar, None, (128, 128, 128))"
    by (simp add: clasificar_persona_def estimar_altura_real_def)
next
  assume a: "calibrado s \<and> factor_conversion s = Some f \<and> (0 \<le> w \<or> 0 < f)"
  define cm where "cm = py_round1 (real_of_int h * f)"
  have est: "estimar_altura_real s h = Some cm"
    using a by (simp add: estimar_altura_real_def cm_def)
  have neg: "\<not> 28 / 10 < real_of_int h / real_of_int w" if "150 \<le> cm" "w < 0"
  proof -
    have "0 < f" using a that by auto
    moreover have "0 < real_of_int h * f" using that py_round1_positivo cm_def by blast
    ultimately have "0 < real_of_int h" by (simp add: zero_less_mult_iff)
    then have "real_of_int h / real_of_int w < 0"
      using that by (simp add: divide_neg_pos divide_pos_neg)
    then show ?thesis by linarith
  qed
  show "let cm = py_round1 (real_of_int h * f);
           aspecto = (if w = 0 then 0 else real_of_int h / real_of_int w);
           r = clasificar_persona s h w
       in estimar_altura_real s h = Some cm \<and> fst (snd r) = Some cm \<and>
          (fst r = Nino_a \<longleftrightarrow> cm < 110) \<and>
          (fst r = Adolescente \<longleftrightarrow> 110 \<le> cm \<and> cm < 150) \<and>
          (fst r = Mujer \<longleftrightarrow> 150 \<le> cm \<and> 28 / 10 < aspecto) \<and>
          (fst r = Hombre \<longleftrightarrow> 150 \<le> cm \<and> \<not> 28 / 10 < aspecto)"
    using est neg unfolding cm_def [symmetric] Let_def clasificar_persona_def
    by (cases "w < 0"; cases "w = 0"; simp; linarith)
qed

theorem clasificar_persona_umbrales_witness:
  "\<not> calibrado sistema_inicial \<and>
   clasificar_persona sistema_inicial 1500 500 = (Sin_calibrar, None, (128, 128, 128)) \<and>
   calibrado (sistema_inicial\<lparr> calibrado := True, factor_conversion := Some (1 / 10) \<rparr>) \<and>
   factor_conversion (sistema_inicial\<lparr> calibrado := True, factor_conversion := Some (1 / 10) \<rparr>)
     = Some (1 / 10) \<and> (0::int) \<le> 500 \<and>
   clasificar_persona (sistema_inicial\<lparr> calibrado := True, factor_conversion := Some (1 / 10) \<rparr>)
     1099 500 = (Nino_a, Some (1099 / 10), (255, 200, 0)) \<and>
   clasificar_persona (sistema_inicial\<lparr> calibrado := True, factor_conversion := Some (1 / 10) \<rparr>)
     1100 500 = (Adolescente, Some 110, (0, 200, 255)) \<and>
   clasificar_persona (sistema_inicial\<lparr> calibrado := True, factor_conversion := Some (1 / 10) \<rparr>)
     1500 500 = (Mujer, Some 150, (255, 0, 255)) \<and>
   clasificar_persona (sistema_inicial\<lparr> calibrado := True, factor_conversion := Some (1 / 10) \<rparr>)
     1500 600 = (Hombre, Some 150, (255, 100, 0))"
  using clasificar_persona_umbrales [of sistema_inicial 1500 500]
    clasificar_persona_umbrales
      [of "sistema_inicial\<lparr> calibrado := True, factor_conversion := Some (1 / 10) \<rparr>" 1500 500 "1 / 10"]
  by (simp add: sistema_inicial_def clasificar_persona_def estimar_altura_real_def
      py_round1_def redondear_par_def)

subsection \<open>Calibrating again\<close>

lemma iniciar_calibracion_factor:
  "calibrado (iniciar_calibracion s cm) = calibrado s \<and>
   factor_conversion (iniciar_calibracion s cm) = factor_conversion s"
  by (simp add: iniciar_calibracion_def)

lemma reiniciar_calibracion_factor:
  "calibrado (reiniciar_calibracion s) = calibrado s \<and>
   factor_conversion (reiniciar_calibracion s) = factor_conversion s"
  by (simp add: reiniciar_calibracion_def)

lemma mouse_callback_calibracion_factor:
  "calibrado (mouse_callback_calibracion s ev x y) = calibrado s \<and>
   factor_conversion (mouse_callback_calibracion s ev x y) = factor_conversion s"
  by (simp add: mouse_callback_calibracion_def)

lemma confirmar_calibracion_sin_exito:
  "confirmar_calibracion s = Inr (False, s1) \<Longrightarrow> s1 = s"
  by (auto simp: confirmar_calibracion_def Let_def split: option.splits if_splits)

lemma sesion_calibracion_factor:
  "sesion_calibracion s os = Inr (oks, s1) \<Longrightarrow> True \<notin> set oks \<Longrightarrow>
   calibrado s1 = calibrado s \<and> factor_conversion s1 = factor_conversion s"
proof (induction s os arbitrary: oks s1 rule: sesion_calibracion.induct)
  case (1 s)
  then show ?case by simp
next
  case (2 s cm os)
  then show ?case by (simp add: iniciar_calibracion_factor)
next
  case (3 s x y os)
  then show ?case by (simp add: mouse_callback_calibracion_factor)
next
  case (4 s os)
  then show ?case by (simp add: reiniciar_calibracion_factor)
next
  case (5 s os)
  from "5.prems" obtain ok sa oks' where
    c: "confirmar_calibracion s = Inr (ok, sa)" and
    r: "sesion_calibracion sa os = Inr (oks', s1)" and o: "oks = ok # oks'"
    by (auto split: sum.splits prod.splits)
  from o "5.prems" have "\<not> ok" and "True \<notin> set oks'" by auto
  with c have "sa = s" using confirmar_calibracion_sin_exito by auto
  with "5.IH" [of "(ok, sa)" ok sa oks' s1] c r \<open>True \<notin> set oks'\<close> show ?case by simp
qed

text \<open>
  C10: once calibrated with factor \<open>f\<close>, \<open>iniciar_calibracion\<close> and
  \<open>reiniciar_calibracion\<close> leave \<open>calibrado\<close> true and the factor \<open>f\<close>; so does every
  calibration session (starts, clicks, resets, confirmations) in which no confirmation
  succeeded, and \<open>estimar_altura_real\<close> still answers with the old factor after it.
\<close>

theorem factor_conversion_estable:
  assumes "calibrado s" and "factor_conversion s = Some f"
    and "sesion_calibracion s os = Inr (oks, s1)" and "True \<notin> set oks"
  shows "calibrado (iniciar_calibracion s cm) \<and>
         factor_conversion (iniciar_calibracion s cm) = Some f \<and>
         calibrado (reiniciar_calibracion s) \<and>
         factor_conversion (reiniciar_calibracion s) = Some f \<and>
         calibrado s1 \<and> factor_conversion s1 = Some f \<and>
         estimar_altura_real s1 h = Some (py_round1 (real_of_int h * f))"
  using assms sesion_calibracion_factor [OF assms(3,4)]
  by (simp add: iniciar_calibracion_factor reiniciar_calibracion_factor estimar_altura_real_def)

theorem factor_conversion_estable_witness:
  "calibrado sistema_puerta \<and> factor_conversion sistema_puerta = Some 1 \<and>
   sesion_calibracion sistema_puerta
     [Iniciar 100, Click 10 20, Reiniciar, Click 30 40, Confirmar, Click 30 90]
     = Inr ([False],
         sistema_puerta\<lparr> altura_real_referencia_cm := Some 100, modo_calibracion := True,
           punto1_calibracion := Some (30, 40), punto2_calibracion := Some (30, 90) \<rparr>) \<and>
   True \<notin> set [False] \<and>
   estimar_altura_real
     (sistema_puerta\<lparr> altura_real_referencia_cm := Some 100, modo_calibracion := True,
        punto1_calibracion := Some (30, 40), punto2_calibracion := Some (30, 90) \<rparr>) 170
     = Some 170"
proof -
  have a: "calibrado sistema_puerta" and b: "factor_conversion sistema_puerta = Some 1"
    by (simp_all add: sistema_puerta_eq)
  have c: "sesion_calibracion sistema_puerta
     [Iniciar 100, Click 10 20, Reiniciar, Click 30 40, Confirmar, Click 30 90]
     = Inr ([False],
         sistema_puerta\<lparr> altura_real_referencia_cm := Some 100, modo_calibracion := True,
           punto1_calibracion := Some (30, 40), punto2_calibracion := Some (30, 90) \<rparr>)"
    by (simp add: sistema_puerta_eq sistema_inicial_def iniciar_calibracion_def
      mouse_callback_calibracion_def confirmar_calibracion_def reiniciar_calibracion_def)
  have d: "True \<notin> set [False]" by simp
  have e: "py_round1 (real_of_int 170 * 1) = 170"
    by (simp add: py_round1_def redondear_par_def)
  show ?thesis
    using factor_conversion_estable [OF a b c d, of 0 170] a b c d e by simp
qed
section \<open>Properties of the line crossing\<close>

lemma detectar_cruce_linea_total:
  "y_cruce s = Some l \<Longrightarrow> \<exists>mov s1. detectar_cruce_linea s i y = Inr (mov, s1)"
  by (simp add: detectar_cruce_linea_def Let_def)

lemma detectar_cruce_linea_campos:
  assumes "detectar_cruce_linea s i y = Inr (mov, s1)"
  shows "y_cruce s1 = y_cruce s" and "personas_trackeadas s1 = personas_trackeadas s"
    and "siguiente_id s1 = siguiente_id s"
    and "historial_posicion s1 = (historial_posicion s)(i \<mapsto> historial_tras s i y)"
    and "ids_cruzados s1 = (if mov = None then ids_cruzados s else insert i (ids_cruzados s))"
    and "mov \<noteq> None \<Longrightarrow> i \<notin> ids_cruzados s"
    and "calibrado s1 = calibrado s" and "factor_conversion s1 = factor_conversion s"
    and "modo_calibracion s1 = modo_calibracion s"
    and "total_entradas s1 = total_entradas s" and "total_salidas s1 = total_salidas s"
  using assms
  by (auto simp: detectar_cruce_linea_def Let_def split: if_splits option.splits)

lemma detectar_cruce_linea_resultado:
  assumes "y_cruce s = Some l"
  shows "\<exists>s1. detectar_cruce_linea s i y =
     Inr (if 2 \<le> length (historial_tras s i y) \<and>
             zona_de (real_of_int y) l \<noteq> zona_anterior (historial_tras s i y) l \<and>
             i \<notin> ids_cruzados s
          then Some (if zona_de (real_of_int y) l = Abajo then Entrada else Salida)
          else None, s1)"
  using assms
  by (cases "zona_de (real_of_int y) l"; cases "zona_anterior (historial_tras s i y) l")
     (auto simp: detectar_cruce_linea_def Let_def)

lemma historial_tras_nuevo: "historial_posicion s i = None \<Longrightarrow> historial_tras s i y = [y]"
  by (simp add: historial_tras_def max_historial_def)

lemma historial_tras_ventana:
  "historial_posicion s i = Some (drop (length ys - 5) ys) \<Longrightarrow>
   historial_tras s i y = drop (length (ys @ [y]) - 5) (ys @ [y])"
proof -
  assume a: "historial_posicion s i = Some (drop (length ys - 5) ys)"
  show ?thesis
  proof (cases "length ys < 5")
    case True
    with a show ?thesis by (simp add: historial_tras_def max_historial_def)
  next
    case False
    then have l: "length (drop (length ys - 5) ys) = 5" by simp
    have "drop (length ys - 5) ys \<noteq> []" using l by auto
    then have "tl (drop (length ys - 5) ys @ [y]) = tl (drop (length ys - 5) ys) @ [y]"
      by simp
    then have "tl (drop (length ys - 5) ys @ [y]) = drop (Suc (length ys - 5)) ys @ [y]"
      by (simp add: drop_Suc tl_drop)
    moreover have "Suc (length ys - 5) = length ys - 4" using False by simp
    ultimately show ?thesis
      using a l False by (simp add: historial_tras_def max_historial_def)
  qed
qed

lemma observar_muestras_total:
  "y_cruce s = Some l \<Longrightarrow> \<exists>movs s1. observar_muestras s i ys = Inr (movs, s1)"
proof (induction ys arbitrary: s)
  case Nil
  then show ?case by simp
next
  case (Cons y ys)
  from detectar_cruce_linea_total [OF Cons.prems] obtain mov s1
    where d: "detectar_cruce_linea s i y = Inr (mov, s1)" by blast
  then have "y_cruce s1 = Some l" using Cons.prems detectar_cruce_linea_campos(1) by metis
  from Cons.IH [OF this] d show ?case by auto
qed

lemma observar_muestras_snoc:
  "observar_muestras s i (ys @ [y]) =
     (case observar_muestras s i ys of
        Inl e \<Rightarrow> Inl e
      | Inr (movs, s1) \<Rightarrow>
          (case detectar_cruce_linea s1 i y of
             Inl e \<Rightarrow> Inl e
           | Inr (mov, s2) \<Rightarrow> Inr (movs @ [mov], s2)))"
  by (induction ys arbitrary: s) (auto split: sum.splits)

lemma observar_muestras_campos:
  "observar_muestras s i ys = Inr (movs, s1) \<Longrightarrow>
   y_cruce s1 = y_cruce s \<and> length movs = length ys"
proof (induction ys arbitrary: s movs)
  case Nil
  then show ?case by simp
next
  case (Cons y ys)
  from Cons.prems obtain mov sa movs' where
    d: "detectar_cruce_linea s i y = Inr (mov, sa)" and
    r: "observar_muestras sa i ys = Inr (movs', s1)" and m: "movs = mov # movs'"
    by (auto split: sum.splits)
  from Cons.IH [OF r] detectar_cruce_linea_campos(1) [OF d] m show ?case by simp
qed

lemma observar_muestras_historial:
  "historial_posicion s i = None \<Longrightarrow> observar_muestras s i ys = Inr (movs, s1) \<Longrightarrow>
   historial_posicion s1 i = (if ys = [] then None else Some (drop (length ys - 5) ys))"
proof (induction ys arbitrary: movs s1 rule: rev_induct)
  case Nil
  then show ?case by simp
next
  case (snoc y ys)
  from snoc.prems(2) obtain movs' sa mov where
    r: "observar_muestras s i ys = Inr (movs', sa)" and
    d: "detectar_cruce_linea sa i y = Inr (mov, s1)"
    by (auto simp: observar_muestras_snoc split: sum.splits)
  have h: "historial_posicion sa i = (if ys = [] then None else Some (drop (length ys - 5) ys))"
    using snoc.IH [OF snoc.prems(1) r] .
  have "historial_tras sa i y = drop (length (ys @ [y]) - 5) (ys @ [y])"
  proof (cases "ys = []")
    case True
    with h show ?thesis by (simp add: historial_tras_nuevo)
  next
    case False
    with h show ?thesis by (simp add: historial_tras_ventana)
  qed
  with detectar_cruce_linea_campos(4) [OF d] show ?case by simp
qed

lemma observar_muestras_append:
  "observar_muestras s i (xs @ ys) =
     (case observar_muestras s i xs of
        Inl e \<Rightarrow> Inl e
      | Inr (movs, s1) \<Rightarrow>
          (case observar_muestras s1 i ys of
             Inl e \<Rightarrow> Inl e
           | Inr (movs', s2) \<Rightarrow> Inr (movs @ movs', s2)))"
  by (induction xs arbitrary: s) (auto split: sum.splits)

lemma observar_muestras_cruzada:
  "y_cruce s = Some l \<Longrightarrow> i \<in> ids_cruzados s \<Longrightarrow>
   \<exists>s1. observar_muestras s i ys = Inr (replicate (length ys) None, s1)"
proof (induction ys arbitrary: s)
  case Nil
  then show ?case by simp
next
  case (Cons y ys)
  from detectar_cruce_linea_resultado [OF Cons.prems(1), of i y] Cons.prems(2)
  obtain s1 where d: "detectar_cruce_linea s i y = Inr (None, s1)" by auto
  have "y_cruce s1 = Some l" "i \<in> ids_cruzados s1"
    using detectar_cruce_linea_campos(1,5) [OF d] Cons.prems by simp_all
  from Cons.IH [OF this] d show ?case by auto
qed

lemmas evaluar_cruce = detectar_cruce_linea_def historial_tras_def zona_anterior_def
  zona_de_def np_mean_def max_historial_def sistema_inicial_def Let_def

text \<open>
  C4 (as the code has it): the first call for an identity, with fewer than two samples
  stored, returns no movement. After the samples \<open>ys\<close> and one more sample \<open>y\<close> the
  stored history is the last five samples, and \<open>zona_anterior\<close> is computed from the mean
  of the two oldest samples of that window: the first two samples ever recorded only while
  no sample has been evicted, that is up to the fifth call.
\<close>

theorem zona_anterior_ventana:
  assumes "historial_posicion s i = None" and "y_cruce s = Some l"
  shows "\<exists>movs s1 s2. observar_muestras s i ys = Inr (movs, s1) \<and>
     historial_tras s1 i y = drop (length (ys @ [y]) - 5) (ys @ [y]) \<and>
     detectar_cruce_linea s1 i y =
       Inr (if ys \<noteq> [] \<and>
               zona_de (real_of_int y) l
                 \<noteq> zona_anterior (drop (length (ys @ [y]) - 5) (ys @ [y])) l \<and>
               i \<notin> ids_cruzados s1
            then Some (if zona_de (real_of_int y) l = Abajo then Entrada else Salida)
            else None, s2)"
proof -
  from observar_muestras_total [OF assms(2)] obtain movs s1
    where r: "observar_muestras s i ys = Inr (movs, s1)" by blast
  have y: "y_cruce s1 = Some l" using observar_muestras_campos [OF r] assms(2) by simp
  have h: "historial_posicion s1 i = (if ys = [] then None else Some (drop (length ys - 5) ys))"
    using observar_muestras_historial [OF assms(1) r] .
  have w: "historial_tras s1 i y = drop (length (ys @ [y]) - 5) (ys @ [y])"
  proof (cases "ys = []")
    case True
    with h show ?thesis by (simp add: historial_tras_nuevo)
  next
    case False
    with h show ?thesis by (simp add: historial_tras_ventana)
  qed
  have n: "2 \<le> length (historial_tras s1 i y) \<longleftrightarrow> ys \<noteq> []"
    unfolding w by (cases ys) auto
  from detectar_cruce_linea_resultado [OF y, of i y] obtain s2 where
    "detectar_cruce_linea s1 i y =
     Inr (if 2 \<le> length (historial_tras s1 i y) \<and>
             zona_de (real_of_int y) l \<noteq> zona_anterior (historial_tras s1 i y) l \<and>
             i \<notin> ids_cruzados s1
          then Some (if zona_de (real_of_int y) l = Abajo then Entrada else Salida)
          else None, s2)" by blast
  then show ?thesis using r w n by auto
qed

theorem zona_anterior_ventana_witness:
  "historial_posicion (sistema_inicial\<lparr> y_cruce := Some 300 \<rparr>) 0 = None \<and>
   y_cruce (sistema_inicial\<lparr> y_cruce := Some 300 \<rparr>) = Some 300 \<and>
   (\<exists>movs s1 s2.
      observar_muestras (sistema_inicial\<lparr> y_cruce := Some 300 \<rparr>) 0 [310, 280, 280, 280, 280, 280]
        = Inr (movs, s1) \<and>
      historial_tras s1 0 310 = [280, 280, 280, 280, 310] \<and>
      zona_anterior [280, 280, 280, 280, 310] 300 = Arriba \<and>
      detectar_cruce_linea s1 0 310 = Inr (Some Entrada, s2))"
proof -
  have h1: "historial_posicion (sistema_inicial\<lparr> y_cruce := Some 300 \<rparr>) 0 = None"
    and h2: "y_cruce (sistema_inicial\<lparr> y_cruce := Some 300 \<rparr>) = Some 300"
    by (simp_all add: sistema_inicial_def)
  from zona_anterior_ventana [OF h1 h2, of "[310, 280, 280, 280, 280, 280]" 310]
  obtain movs s1 s2 where
    r: "observar_muestras (sistema_inicial\<lparr> y_cruce := Some 300 \<rparr>) 0
          [310, 280, 280, 280, 280, 280] = Inr (movs, s1)" and
    w: "historial_tras s1 0 310 = [280, 280, 280, 280, 310]" and
    d: "detectar_cruce_linea s1 0 310 =
          Inr (if zona_de (real_of_int 310) 300 \<noteq> zona_anterior [280, 280, 280, 280, 310] 300 \<and>
                  0 \<notin> ids_cruzados s1
               then Some (if zona_de (real_of_int 310) 300 = Abajo then Entrada else Salida)
               else None, s2)"
    by auto
  have "case observar_muestras (sistema_inicial\<lparr> y_cruce := Some 300 \<rparr>) 0
            [310, 280, 280, 280, 280, 280] of
          Inl e \<Rightarrow> False | Inr (movs, s1) \<Rightarrow> 0 \<notin> ids_cruzados s1"
    by (simp add: evaluar_cruce)
  with r have c: "0 \<notin> ids_cruzados s1" by simp
  have z: "zona_anterior [280, 280, 280, 280, 310] 300 = Arriba"
    "zona_de (real_of_int 310) 300 = Abajo"
    by (simp_all add: zona_anterior_def zona_de_def np_mean_def)
  from d c z have "detectar_cruce_linea s1 0 310 = Inr (Some Entrada, s2)" by simp
  with h1 h2 r w z show ?thesis by blast
qed

text \<open>After seven samples the window holds five samples of 320: \<open>zona_anterior\<close> is
  \<open>Abajo\<close>, while the mean of the first two samples ever recorded, 282.5, is above the
  line.\<close>

theorem zona_anterior_primeras_dos_counterexample:
  "case observar_muestras (sistema_inicial\<lparr> y_cruce := Some 300 \<rparr>) 0
            [280, 285, 320, 320, 320, 320] of
      Inl e \<Rightarrow> False
    | Inr (movs, s1) \<Rightarrow>
        historial_tras s1 0 320 = [320, 320, 320, 320, 320] \<and>
        zona_anterior (historial_tras s1 0 320) 300 = Abajo \<and>
        zona_de (np_mean (take 2 ([280, 285, 320, 320, 320, 320] @ [320]))) 300 = Arriba"
  by (simp add: evaluar_cruce)

subsection \<open>The returned movements and the first two samples\<close>

text \<open>
  While an identity has returned no movement, every sample from the second on lies in
  the zone of the mean of the first two; so the zone computed from the window is the zone
  of the first two samples ever recorded whenever a movement can still be returned, and
  for a new identity the calls return what the rule of the first two samples would.
\<close>

lemma zona_media:
  "zona_de (real_of_int a) l = z \<Longrightarrow> zona_de (real_of_int b) l = z \<Longrightarrow>
   zona_de (np_mean [a, b]) l = z"
  by (auto simp: zona_de_def np_mean_def split: if_splits)

lemma take2_drop:
  "Suc k < length xs \<Longrightarrow> take 2 (drop k xs) = [xs ! k, xs ! Suc k]"
proof -
  assume a: "Suc k < length xs"
  then have "drop k xs = xs ! k # drop (Suc k) xs" by (simp add: Cons_nth_drop_Suc)
  moreover have "drop (Suc k) xs = xs ! Suc k # drop (Suc (Suc k)) xs"
    using a by (simp add: Cons_nth_drop_Suc)
  ultimately show ?thesis by (simp add: numeral_2_eq_2)
qed

lemma zona_anterior_igual:
  assumes z: "\<forall>y \<in> set (tl ps). zona_de (real_of_int y) l = zona_de (np_mean (take 2 ps)) l"
    and n: "2 \<le> length ps"
  shows "zona_anterior (drop (length (ps @ [y]) - 5) (ps @ [y])) l
           = zona_de (np_mean (take 2 (ps @ [y]))) l"
proof (cases "length ps < 5")
  case True
  then show ?thesis by (simp add: zona_anterior_def)
next
  case False
  define k where "k = length ps - 4"
  have k: "1 \<le> k" "Suc k < length ps" "length (ps @ [y]) - 5 = k"
    using False by (simp_all add: k_def)
  have d: "drop k (ps @ [y]) = drop k ps @ [y]" using k by simp
  have t: "take 2 (drop k ps @ [y]) = take 2 (drop k ps)"
    using k by simp
  have e: "take 2 (drop k ps) = [ps ! k, ps ! Suc k]" using k by (simp add: take2_drop)
  have m: "ps ! k \<in> set (tl ps)" "ps ! Suc k \<in> set (tl ps)"
  proof -
    have "tl ps ! (k - 1) = ps ! k" using k by (simp add: nth_tl)
    moreover have "k - 1 < length (tl ps)" using k by simp
    ultimately show "ps ! k \<in> set (tl ps)" by (metis nth_mem)
    have "tl ps ! k = ps ! Suc k" using k by (simp add: nth_tl)
    moreover have "k < length (tl ps)" using k by simp
    ultimately show "ps ! Suc k \<in> set (tl ps)" by (metis nth_mem)
  qed
  have "zona_de (np_mean [ps ! k, ps ! Suc k]) l = zona_de (np_mean (take 2 ps)) l"
    using z m by (intro zona_media) blast+
  moreover have "take 2 (ps @ [y]) = take 2 ps" using n by simp
  ultimately show ?thesis
    unfolding k(3) d zona_anterior_def t e by simp
qed

lemma rel_muestras_paso:
  assumes r: "rel_muestras s i l ps c"
  shows "\<exists>s1. detectar_cruce_linea s i y =
           Inr (if 2 \<le> length (ps @ [y]) \<and>
                   zona_de (real_of_int y) l \<noteq> zona_de (np_mean (take 2 (ps @ [y]))) l \<and> \<not> c
                then Some (if zona_de (real_of_int y) l = Abajo then Entrada else Salida)
                else None, s1) \<and>
           rel_muestras s1 i l (ps @ [y])
             (c \<or> (2 \<le> length (ps @ [y]) \<and>
                zona_de (real_of_int y) l \<noteq> zona_de (np_mean (take 2 (ps @ [y]))) l))"
proof -
  from r have y: "y_cruce s = Some l"
    and h: "historial_posicion s i = (if ps = [] then None else Some (drop (length ps - 5) ps))"
    and c: "c \<longleftrightarrow> i \<in> ids_cruzados s"
    and z: "\<not> c \<and> 2 \<le> length ps \<longrightarrow>
        (\<forall>y \<in> set (tl ps). zona_de (real_of_int y) l = zona_de (np_mean (take 2 ps)) l)"
    by (simp_all add: rel_muestras_def)
  have w: "historial_tras s i y = drop (length (ps @ [y]) - 5) (ps @ [y])"
  proof (cases "ps = []")
    case True
    with h show ?thesis by (simp add: historial_tras_nuevo)
  next
    case False
    with h show ?thesis by (simp add: historial_tras_ventana)
  qed
  have n: "2 \<le> length (historial_tras s i y) \<longleftrightarrow> 2 \<le> length (ps @ [y])"
    unfolding w by auto
  have za: "zona_anterior (historial_tras s i y) l = zona_de (np_mean (take 2 (ps @ [y]))) l"
    if "\<not> c" "ps \<noteq> []"
  proof (cases "2 \<le> length ps")
    case True
    with z that show ?thesis unfolding w by (intro zona_anterior_igual) simp_all
  next
    case False
    with that have "length ps = 1" by (cases ps) (auto simp: not_le)
    then show ?thesis unfolding w by (simp add: zona_anterior_def)
  qed
  define ev where "ev \<longleftrightarrow> 2 \<le> length (ps @ [y]) \<and>
     zona_de (real_of_int y) l \<noteq> zona_de (np_mean (take 2 (ps @ [y]))) l"
  from detectar_cruce_linea_resultado [OF y, of i y] obtain s1 where
    d0: "detectar_cruce_linea s i y =
     Inr (if 2 \<le> length (historial_tras s i y) \<and>
             zona_de (real_of_int y) l \<noteq> zona_anterior (historial_tras s i y) l \<and>
             i \<notin> ids_cruzados s
          then Some (if zona_de (real_of_int y) l = Abajo then Entrada else Salida)
          else None, s1)" by blast
  have cond: "(2 \<le> length (historial_tras s i y) \<and>
             zona_de (real_of_int y) l \<noteq> zona_anterior (historial_tras s i y) l \<and>
             i \<notin> ids_cruzados s) \<longleftrightarrow> (ev \<and> \<not> c)"
    using za c n unfolding ev_def by (cases "ps = []") auto
  have d: "detectar_cruce_linea s i y =
     Inr (if ev \<and> \<not> c
          then Some (if zona_de (real_of_int y) l = Abajo then Entrada else Salida)
          else None, s1)"
    using d0 unfolding cond .
  note f = detectar_cruce_linea_campos [OF d]
  have hy: "historial_posicion s1 i = Some (drop (length (ps @ [y]) - 5) (ps @ [y]))"
    using f(4) w by simp
  have cr: "(c \<or> ev) \<longleftrightarrow> i \<in> ids_cruzados s1"
    using f(5) c by (auto split: if_splits)
  have zs: "\<forall>x \<in> set (tl (ps @ [y])).
              zona_de (real_of_int x) l = zona_de (np_mean (take 2 (ps @ [y]))) l"
    if nc: "\<not> (c \<or> ev)" and l2: "2 \<le> length (ps @ [y])"
  proof (cases "2 \<le> length ps")
    case True
    then have "tl (ps @ [y]) = tl ps @ [y]" "take 2 (ps @ [y]) = take 2 ps"
      by (cases ps; simp)+
    moreover have "zona_de (real_of_int y) l = zona_de (np_mean (take 2 (ps @ [y]))) l"
      using nc l2 by (simp add: ev_def)
    ultimately show ?thesis using z nc True by auto
  next
    case False
    with l2 obtain a where "ps = [a]" by (cases ps) (auto simp: not_le)
    then show ?thesis using nc by (simp add: ev_def)
  qed
  have "rel_muestras s1 i l (ps @ [y]) (c \<or> ev)"
    unfolding rel_muestras_def using f(1) y hy cr zs by auto
  with d show ?thesis unfolding ev_def by (auto simp: conj_commute)
qed

lemma observar_muestras_segun_primeras_dos:
  "rel_muestras s i l ps c \<Longrightarrow>
   \<exists>s1. observar_muestras s i ys = Inr (observar_segun_primeras_dos l ps c ys, s1)"
proof (induction ys arbitrary: s ps c)
  case Nil
  then show ?case by simp
next
  case (Cons y ys)
  from rel_muestras_paso [OF Cons.prems, of y] obtain s1 where
    d: "detectar_cruce_linea s i y =
           Inr (if 2 \<le> length (ps @ [y]) \<and>
                   zona_de (real_of_int y) l \<noteq> zona_de (np_mean (take 2 (ps @ [y]))) l \<and> \<not> c
                then Some (if zona_de (real_of_int y) l = Abajo then Entrada else Salida)
                else None, s1)" and
    r: "rel_muestras s1 i l (ps @ [y])
             (c \<or> (2 \<le> length (ps @ [y]) \<and>
                zona_de (real_of_int y) l \<noteq> zona_de (np_mean (take 2 (ps @ [y]))) l))"
    by blast
  from Cons.IH [OF r] obtain s2 where
    "observar_muestras s1 i ys =
       Inr (observar_segun_primeras_dos l (ps @ [y])
              (c \<or> (2 \<le> length (ps @ [y]) \<and>
                zona_de (real_of_int y) l \<noteq> zona_de (np_mean (take 2 (ps @ [y]))) l)) ys, s2)"
    by blast
  with d show ?case by (cases ps) (auto simp: Let_def not_le)
qed

lemma eventos_iguales_primeras_dos:
  assumes "y_cruce s = Some l" and "historial_posicion s i = None" and "i \<notin> ids_cruzados s"
  shows "\<exists>s1. observar_muestras s i ys = Inr (observar_segun_primeras_dos l [] False ys, s1)"
proof -
  have "rel_muestras s i l [] False" using assms by (simp add: rel_muestras_def)
  then show ?thesis by (rule observar_muestras_segun_primeras_dos)
qed

subsection \<open>The line at 300\<close>

text \<open>
  C2 (as the code has it): with the line at 300 and a new identity, the samples 280 and
  285 return nothing, 320 returns \<open>entrada\<close>, and the following 280 returns nothing, as
  does every later sample: the identity is in \<open>ids_cruzados\<close>.
\<close>

theorem cruce_unico_linea_300:
  assumes "y_cruce s = Some 300" and "historial_posicion s i = None" and "i \<notin> ids_cruzados s"
  shows "\<exists>s1. observar_muestras s i ([280, 285, 320, 280] @ ys) =
           Inr ([None, None, Some Entrada, None] @ replicate (length ys) None, s1)"
proof -
  have "\<exists>s4. observar_muestras s i [280, 285, 320, 280] =
             Inr ([None, None, Some Entrada, None], s4) \<and>
           y_cruce s4 = Some 300 \<and> i \<in> ids_cruzados s4"
    using assms by (simp add: evaluar_cruce)
  then obtain s4 where
    a: "observar_muestras s i [280, 285, 320, 280] = Inr ([None, None, Some Entrada, None], s4)"
    and y: "y_cruce s4 = Some 300" and c: "i \<in> ids_cruzados s4" by blast
  from observar_muestras_cruzada [OF y c, of ys] obtain s1 where
    "observar_muestras s4 i ys = Inr (replicate (length ys) None, s1)" by blast
  with a show ?thesis by (simp only: observar_muestras_append) simp
qed

theorem cruce_unico_linea_300_witness:
  "y_cruce (sistema_inicial\<lparr> y_cruce := Some 300 \<rparr>) = Some 300 \<and>
   historial_posicion (sistema_inicial\<lparr> y_cruce := Some 300 \<rparr>) 0 = None \<and>
   0 \<notin> ids_cruzados (sistema_inicial\<lparr> y_cruce := Some 300 \<rparr>) \<and>
   (\<exists>s1. observar_muestras (sistema_inicial\<lparr> y_cruce := Some 300 \<rparr>) 0
            ([280, 285, 320, 280] @ [320, 280, 320]) =
          Inr ([None, None, Some Entrada, None] @ replicate (length [320, 280, 320 :: int]) None, s1))"
proof -
  have h: "y_cruce (sistema_inicial\<lparr> y_cruce := Some 300 \<rparr>) = Some 300"
    "historial_posicion (sistema_inicial\<lparr> y_cruce := Some 300 \<rparr>) 0 = None"
    "0 \<notin> ids_cruzados (sistema_inicial\<lparr> y_cruce := Some 300 \<rparr>)"
    by (simp_all add: sistema_inicial_def)
  from cruce_unico_linea_300 [OF h, of "[320, 280, 320]"] h show ?thesis by blast
qed

text \<open>The fourth call returns no movement, not \<open>salida\<close>.\<close>

theorem salida_tras_entrada_counterexample:
  "map_sum id fst
     (observar_muestras (sistema_inicial\<lparr> y_cruce := Some 300 \<rparr>) 0 [280, 285, 320, 280])
   = Inr [None, None, Some Entrada, None]"
  by (simp add: evaluar_cruce)

section \<open>Properties of the tracking\<close>

lemma asignar_deteccion_campos:
  "asignar_deteccion s b st = (pa, us, s1) \<Longrightarrow>
   s1 = s\<lparr> siguiente_id := siguiente_id s1 \<rparr> \<and> siguiente_id s \<le> siguiente_id s1"
  by (auto simp: asignar_deteccion_def split: prod.splits option.splits)

lemma bucle_detecciones_campos:
  "bucle_detecciones s ds st = (pa, us, s1) \<Longrightarrow>
   s1 = s\<lparr> siguiente_id := siguiente_id s1 \<rparr> \<and> siguiente_id s \<le> siguiente_id s1"
proof (induction ds arbitrary: s st)
  case Nil
  then show ?case by auto
next
  case (Cons b bs)
  obtain pa' us' sa where a: "asignar_deteccion s b st = (pa', us', sa)"
    by (cases "asignar_deteccion s b st") auto
  with Cons.prems have r: "bucle_detecciones sa bs (pa', us') = (pa, us, s1)" by simp
  from asignar_deteccion_campos [OF a] have
    e: "sa = s\<lparr> siguiente_id := siguiente_id sa \<rparr>" and l: "siguiente_id s \<le> siguiente_id sa"
    by simp_all
  from Cons.IH [OF r] have "s1 = sa\<lparr> siguiente_id := siguiente_id s1 \<rparr>"
    and "siguiente_id sa \<le> siguiente_id s1" by simp_all
  with l show ?case by (subst (asm) e) simp
qed

lemma trackear_personas_campos:
  assumes "trackear_personas s ds = (pa, s1)"
  shows "y_cruce s1 = y_cruce s" and "personas_trackeadas s1 = pa"
    and "ids_cruzados s1 = ids_cruzados s - (claves (personas_trackeadas s) - claves pa)"
    and "historial_posicion s1 =
           (\<lambda>k. if k \<in> claves (personas_trackeadas s) - claves pa then None
                else historial_posicion s k)"
    and "calibrado s1 = calibrado s" and "factor_conversion s1 = factor_conversion s"
    and "modo_calibracion s1 = modo_calibracion s"
    and "total_entradas s1 = total_entradas s" and "total_salidas s1 = total_salidas s"
    and "siguiente_id s \<le> siguiente_id s1"
proof -
  obtain pa' us sb where b: "bucle_detecciones s ds ([], {}) = (pa', us, sb)"
    by (cases "bucle_detecciones s ds ([], {})") auto
  from bucle_detecciones_campos [OF b] have
    e: "sb = s\<lparr> siguiente_id := siguiente_id sb \<rparr>" and l: "siguiente_id s \<le> siguiente_id sb"
    by simp_all
  have f: "y_cruce sb = y_cruce s" "personas_trackeadas sb = personas_trackeadas s"
    "ids_cruzados sb = ids_cruzados s" "historial_posicion sb = historial_posicion s"
    "calibrado sb = calibrado s" "factor_conversion sb = factor_conversion s"
    "modo_calibracion sb = modo_calibracion s"
    "total_entradas sb = total_entradas s" "total_salidas sb = total_salidas s"
    by (subst e, simp)+
  from assms b have p: "pa = pa'" and
    s1: "s1 = sb\<lparr> historial_posicion :=
                      (\<lambda>k. if k \<in> claves (personas_trackeadas sb) - claves pa' then None
                           else historial_posicion sb k),
                    ids_cruzados := ids_cruzados sb - (claves (personas_trackeadas sb) - claves pa'),
                    personas_trackeadas := pa' \<rparr>"
    by (auto simp: trackear_personas_def Let_def)
  show "y_cruce s1 = y_cruce s" and "personas_trackeadas s1 = pa"
    and "ids_cruzados s1 = ids_cruzados s - (claves (personas_trackeadas s) - claves pa)"
    and "historial_posicion s1 =
           (\<lambda>k. if k \<in> claves (personas_trackeadas s) - claves pa then None
                else historial_posicion s k)"
    and "calibrado s1 = calibrado s" and "factor_conversion s1 = factor_conversion s"
    and "modo_calibracion s1 = modo_calibracion s"
    and "total_entradas s1 = total_entradas s" and "total_salidas s1 = total_salidas s"
    and "siguiente_id s \<le> siguiente_id s1"
    using f p l unfolding s1 by (simp_all cong: if_cong)
qed

lemma claves_dict_set: "claves (dict_set k v kvs) = insert k (claves kvs)"
proof (induction kvs)
  case Nil
  then show ?case by (simp add: claves_def)
next
  case (Cons x kvs)
  obtain k' v' where x: "x = (k', v')" by (cases x) auto
  from Cons show ?case unfolding x claves_def by (cases "k = k'") auto
qed

lemma claves_Nil: "claves [] = {}"
  by (simp add: claves_def)

lemma buscar_mejor_minimo:
  "buscar_mejor xs us c (m0, d0) = (m, d) \<Longrightarrow>
   d \<le> d0 \<and>
   (\<forall>(j, q) \<in> set xs. j \<notin> us \<longrightarrow> d \<le> calcular_distancia_euclidiana c (centro q)) \<and>
   ((m, d) = (m0, d0) \<or>
    (\<exists>i p. m = Some i \<and> (i, p) \<in> set xs \<and> i \<notin> us \<and>
           d = calcular_distancia_euclidiana c (centro p) \<and> d < d0))"
proof (induction xs arbitrary: m0 d0)
  case Nil
  then show ?case by simp
next
  case (Cons x xs)
  obtain k info where x: "x = (k, info)" by (cases x) auto
  show ?case
  proof (cases "k \<in> us")
    case True
    with Cons.prems x have "buscar_mejor xs us c (m0, d0) = (m, d)" by simp
    from Cons.IH [OF this] True x show ?thesis by auto
  next
    case False
    show ?thesis
    proof (cases "calcular_distancia_euclidiana c (centro info) < d0")
      case True
      with Cons.prems x False have
        "buscar_mejor xs us c (Some k, calcular_distancia_euclidiana c (centro info)) = (m, d)"
        by simp
      from Cons.IH [OF this] True False x show ?thesis by (auto; force)
    next
      case nl: False
      with Cons.prems x False have "buscar_mejor xs us c (m0, d0) = (m, d)" by simp
      from Cons.IH [OF this] nl False x show ?thesis by auto
    qed
  qed
qed

lemma buscar_mejor_ninguno:
  "buscar_mejor xs us c (None, d0) = (None, d) \<Longrightarrow>
   \<forall>(j, q) \<in> set xs. j \<notin> us \<longrightarrow> d0 \<le> calcular_distancia_euclidiana c (centro q)"
  using buscar_mejor_minimo [of xs us c None d0 None d] by auto

lemma buscar_mejor_alguno:
  "buscar_mejor xs us c (None, d0) = (Some i, d) \<Longrightarrow>
   \<exists>p. (i, p) \<in> set xs \<and> i \<notin> us \<and> calcular_distancia_euclidiana c (centro p) < d0 \<and>
       (\<forall>(j, q) \<in> set xs. j \<notin> us \<longrightarrow>
          calcular_distancia_euclidiana c (centro p) \<le> calcular_distancia_euclidiana c (centro q))"
  using buscar_mejor_minimo [of xs us c None d0 "Some i" d] by auto

lemma asignar_deteccion_casos:
  assumes "asignar_deteccion s b (pa, us) = (pa', us', s')"
  shows "(\<exists>i. i \<in> claves (personas_trackeadas s) \<and> i \<notin> us \<and>
            pa' = dict_set i (info_persona s b) pa \<and> us' = insert i us \<and> s' = s) \<or>
         (pa' = dict_set (siguiente_id s) (info_persona s b) pa \<and> us' = us \<and>
            s' = s\<lparr> siguiente_id := siguiente_id s + 1 \<rparr>)"
proof -
  obtain m d where
    bm: "buscar_mejor (personas_trackeadas s) us (obtener_centro_bbox b) (None, 100) = (m, d)"
    by (cases "buscar_mejor (personas_trackeadas s) us (obtener_centro_bbox b) (None, 100)") auto
  show ?thesis
  proof (cases m)
    case None
    with bm assms show ?thesis
      by (auto simp: asignar_deteccion_def distancia_maxima_tracking_def)
  next
    case (Some i)
    from buscar_mejor_alguno bm Some obtain p where
      "(i, p) \<in> set (personas_trackeadas s)" "i \<notin> us" by blast
    then have "i \<in> claves (personas_trackeadas s)" "i \<notin> us" by (force simp: claves_def)+
    with bm assms Some show ?thesis
      by (auto simp: asignar_deteccion_def distancia_maxima_tracking_def)
  qed
qed

lemma sqrt_menor_100 [simp]: "sqrt x < 100 \<longleftrightarrow> x < 10000"
proof -
  have "sqrt (100 * 100) = 100" by (simp only: real_sqrt_abs2)
  then have "sqrt 10000 = 100" by simp
  then show ?thesis using real_sqrt_less_iff [of x 10000] by simp
qed

lemmas evaluar_tracking = trackear_personas_def asignar_deteccion_def info_persona_def
  obtener_centro_bbox_def obtener_pies_persona_def py_int_def calcular_altura_persona_def
  clasificar_persona_def estimar_altura_real_def calcular_distancia_euclidiana_def
  distancia_maxima_tracking_def claves_def

lemma info_persona_sin_calibrar:
  "\<not> calibrado s \<Longrightarrow>
   info_persona s b = \<lparr> bbox = b, centro = obtener_centro_bbox b, pies = obtener_pies_persona b,
     altura_px = calcular_altura_persona b, altura_cm = None, clasificacion = Sin_calibrar,
     color = (128, 128, 128) \<rparr>"
  by (simp add: info_persona_def clasificar_persona_def estimar_altura_real_def Let_def)

lemma sistema_dos_personas_eq:
  "sistema_dos_personas =
     sistema_inicial\<lparr> personas_trackeadas :=
       [(0, persona_en (65, 0, 115, 100)), (1, persona_en (0, 0, 20, 100))],
       siguiente_id := 2 \<rparr>"
  by (simp add: sistema_dos_personas_def persona_en_def evaluar_tracking sistema_inicial_def)

lemma centros: "centro (persona_en (65, 0, 115, 100)) = (90, 50)"
  "centro (persona_en (0, 0, 20, 100)) = (10, 50)"
  "obtener_centro_bbox (-10, 0, 10, 100) = (0, 50)"
  "calcular_distancia_euclidiana (0, 50) (90, 50) = 90"
  "calcular_distancia_euclidiana (0, 50) (10, 50) = 10"
  by (simp_all add: persona_en_def evaluar_tracking)

text \<open>
  C5: \<open>trackear_personas\<close> handles the detections one by one in the order received
  (\<open>bucle_detecciones\<close> continues with the rest from the state that the body leaves). The
  body binds the detection to an identity of the previous frame that is not yet matched,
  at distance below 100 from the centre of the detection and nearest among the unmatched
  ones; when no unmatched identity is nearer than 100 it creates the identity
  \<open>siguiente_id\<close> and increments \<open>siguiente_id\<close>. While every identity in use is below
  \<open>siguiente_id\<close>, the new number is not in use, and every identity in use stays below
  \<open>siguiente_id\<close>.
\<close>

theorem asignar_deteccion_vecino:
  assumes "asignar_deteccion s b (pa, us) = (pa', us', s')"
  shows "((\<exists>i p. (i, p) \<in> set (personas_trackeadas s) \<and> i \<notin> us \<and>
            calcular_distancia_euclidiana (obtener_centro_bbox b) (centro p) < 100 \<and>
            (\<forall>(j, q) \<in> set (personas_trackeadas s). j \<notin> us \<longrightarrow>
               calcular_distancia_euclidiana (obtener_centro_bbox b) (centro p)
                 \<le> calcular_distancia_euclidiana (obtener_centro_bbox b) (centro q)) \<and>
            pa' = dict_set i (info_persona s b) pa \<and> us' = insert i us \<and> s' = s)
          \<or>
          ((\<forall>(j, q) \<in> set (personas_trackeadas s). j \<notin> us \<longrightarrow>
               100 \<le> calcular_distancia_euclidiana (obtener_centro_bbox b) (centro q)) \<and>
           pa' = dict_set (siguiente_id s) (info_persona s b) pa \<and> us' = us \<and>
           s' = s\<lparr> siguiente_id := siguiente_id s + 1 \<rparr> \<and>
           ((\<forall>k \<in> claves (personas_trackeadas s) \<union> claves pa. k < siguiente_id s) \<longrightarrow>
              siguiente_id s \<notin> claves (personas_trackeadas s) \<union> claves pa))) \<and>
         ((\<forall>k \<in> claves (personas_trackeadas s) \<union> claves pa. k < siguiente_id s) \<longrightarrow>
            (\<forall>k \<in> claves (personas_trackeadas s') \<union> claves pa'. k < siguiente_id s')) \<and>
         bucle_detecciones s (b # bs) (pa, us) = bucle_detecciones s' bs (pa', us')"
proof -
  have loop: "bucle_detecciones s (b # bs) (pa, us) = bucle_detecciones s' bs (pa', us')"
    using assms by simp
  obtain m d where
    bm: "buscar_mejor (personas_trackeadas s) us (obtener_centro_bbox b) (None, 100) = (m, d)"
    by (cases "buscar_mejor (personas_trackeadas s) us (obtener_centro_bbox b) (None, 100)") auto
  have inv: "(\<forall>k \<in> claves (personas_trackeadas s) \<union> claves pa. k < siguiente_id s) \<longrightarrow>
            (\<forall>k \<in> claves (personas_trackeadas s') \<union> claves pa'. k < siguiente_id s')"
  proof (intro impI ballI)
    fix k
    assume i: "\<forall>k \<in> claves (personas_trackeadas s) \<union> claves pa. k < siguiente_id s"
      and k: "k \<in> claves (personas_trackeadas s') \<union> claves pa'"
    from asignar_deteccion_casos [OF assms] consider
      (viejo) j where "j \<in> claves (personas_trackeadas s)"
        "pa' = dict_set j (info_persona s b) pa" "s' = s"
      | (nuevo) "pa' = dict_set (siguiente_id s) (info_persona s b) pa"
        "s' = s\<lparr> siguiente_id := siguiente_id s + 1 \<rparr>"
      by blast
    then show "k < siguiente_id s'"
    proof cases
      case viejo
      with k have "k \<in> claves (personas_trackeadas s) \<union> claves pa"
        by (auto simp: claves_dict_set)
      with i viejo show ?thesis by blast
    next
      case nuevo
      with k have "k = siguiente_id s \<or> k \<in> claves (personas_trackeadas s) \<union> claves pa"
        by (auto simp: claves_dict_set)
      with i have "k = siguiente_id s \<or> k < siguiente_id s" by blast
      with nuevo show ?thesis by auto
    qed
  qed
  show ?thesis
  proof (cases m)
    case None
    with bm assms have r: "pa' = dict_set (siguiente_id s) (info_persona s b) pa" "us' = us"
      "s' = s\<lparr> siguiente_id := siguiente_id s + 1 \<rparr>"
      by (auto simp: asignar_deteccion_def distancia_maxima_tracking_def)
    from buscar_mejor_ninguno bm None have
      "\<forall>(j, q) \<in> set (personas_trackeadas s). j \<notin> us \<longrightarrow>
         100 \<le> calcular_distancia_euclidiana (obtener_centro_bbox b) (centro q)" by blast
    moreover have "(\<forall>k \<in> claves (personas_trackeadas s) \<union> claves pa. k < siguiente_id s) \<longrightarrow>
              siguiente_id s \<notin> claves (personas_trackeadas s) \<union> claves pa" by blast
    ultimately have "(\<forall>(j, q) \<in> set (personas_trackeadas s). j \<notin> us \<longrightarrow>
               100 \<le> calcular_distancia_euclidiana (obtener_centro_bbox b) (centro q)) \<and>
           pa' = dict_set (siguiente_id s) (info_persona s b) pa \<and> us' = us \<and>
           s' = s\<lparr> siguiente_id := siguiente_id s + 1 \<rparr> \<and>
           ((\<forall>k \<in> claves (personas_trackeadas s) \<union> claves pa. k < siguiente_id s) \<longrightarrow>
              siguiente_id s \<notin> claves (personas_trackeadas s) \<union> claves pa)"
      using r by blast
    with inv loop show ?thesis by blast
  next
    case (Some i)
    with bm assms have r: "pa' = dict_set i (info_persona s b) pa" "us' = insert i us" "s' = s"
      by (auto simp: asignar_deteccion_def distancia_maxima_tracking_def)
    from buscar_mejor_alguno bm Some obtain p where
      p: "(i, p) \<in> set (personas_trackeadas s)" "i \<notin> us"
        "calcular_distancia_euclidiana (obtener_centro_bbox b) (centro p) < 100"
        "\<forall>(j, q) \<in> set (personas_trackeadas s). j \<notin> us \<longrightarrow>
          calcular_distancia_euclidiana (obtener_centro_bbox b) (centro p)
            \<le> calcular_distancia_euclidiana (obtener_centro_bbox b) (centro q)"
      by blast
    have "\<exists>i p. (i, p) \<in> set (personas_trackeadas s) \<and> i \<notin> us \<and>
            calcular_distancia_euclidiana (obtener_centro_bbox b) (centro p) < 100 \<and>
            (\<forall>(j, q) \<in> set (personas_trackeadas s). j \<notin> us \<longrightarrow>
               calcular_distancia_euclidiana (obtener_centro_bbox b) (centro p)
                 \<le> calcular_distancia_euclidiana (obtener_centro_bbox b) (centro q)) \<and>
            pa' = dict_set i (info_persona s b) pa \<and> us' = insert i us \<and> s' = s"
      using p r by blast
    with inv loop show ?thesis by blast
  qed
qed

theorem asignar_deteccion_vecino_witness:
  "asignar_deteccion sistema_dos_personas (-10, 0, 10, 100) ([], {})
     = ([(1, info_persona sistema_dos_personas (-10, 0, 10, 100))], {1}, sistema_dos_personas) \<and>
   personas_trackeadas sistema_dos_personas
     = [(0, persona_en (65, 0, 115, 100)), (1, persona_en (0, 0, 20, 100))] \<and>
   calcular_distancia_euclidiana (obtener_centro_bbox (-10, 0, 10, 100))
     (centro (persona_en (65, 0, 115, 100))) = 90 \<and>
   calcular_distancia_euclidiana (obtener_centro_bbox (-10, 0, 10, 100))
     (centro (persona_en (0, 0, 20, 100))) = 10 \<and>
   asignar_deteccion sistema_dos_personas (500, 0, 520, 100) ([], {})
     = ([(2, info_persona sistema_dos_personas (500, 0, 520, 100))], {},
        sistema_dos_personas\<lparr> siguiente_id := 3 \<rparr>)"
proof -
  have a: "asignar_deteccion sistema_dos_personas (-10, 0, 10, 100) ([], {})
     = ([(1, info_persona sistema_dos_personas (-10, 0, 10, 100))], {1}, sistema_dos_personas)"
    by (simp add: sistema_dos_personas_eq asignar_deteccion_def centros
        distancia_maxima_tracking_def sistema_inicial_def calcular_distancia_euclidiana_def)
  have b: "asignar_deteccion sistema_dos_personas (500, 0, 520, 100) ([], {})
     = ([(2, info_persona sistema_dos_personas (500, 0, 520, 100))], {},
        sistema_dos_personas\<lparr> siguiente_id := 3 \<rparr>)"
    by (simp add: sistema_dos_personas_eq asignar_deteccion_def centros
        distancia_maxima_tracking_def sistema_inicial_def calcular_distancia_euclidiana_def
        obtener_centro_bbox_def py_int_def)
  have c: "personas_trackeadas sistema_dos_personas
     = [(0, persona_en (65, 0, 115, 100)), (1, persona_en (0, 0, 20, 100))]"
    by (simp add: sistema_dos_personas_eq)
  have d: "calcular_distancia_euclidiana (obtener_centro_bbox (-10, 0, 10, 100))
     (centro (persona_en (65, 0, 115, 100))) = 90"
    "calcular_distancia_euclidiana (obtener_centro_bbox (-10, 0, 10, 100))
     (centro (persona_en (0, 0, 20, 100))) = 10"
    by (simp_all add: centros)
  show ?thesis
    using asignar_deteccion_vecino [OF a] asignar_deteccion_vecino [OF b]
    by (intro conjI) (rule a b c d)+
qed

subsection \<open>Retirement\<close>

lemma asignar_deteccion_ids:
  assumes a: "asignar_deteccion s b (pa, us) = (pa', us', s')"
    and i: "\<forall>k \<in> claves (personas_trackeadas s) \<union> claves pa. k < siguiente_id s"
    and j: "claves pa \<inter> claves (personas_trackeadas s) = us"
  shows "\<forall>k \<in> claves (personas_trackeadas s') \<union> claves pa'. k < siguiente_id s'"
    and "claves pa' \<inter> claves (personas_trackeadas s') = us'"
    and "claves pa' \<subseteq> claves pa \<union> us' \<union> {siguiente_id s ..< siguiente_id s'}"
    and "personas_trackeadas s' = personas_trackeadas s"
    and "siguiente_id s \<le> siguiente_id s'"
    and "us \<subseteq> us'"
proof -
  from asignar_deteccion_casos [OF a] consider
    (viejo) k where "k \<in> claves (personas_trackeadas s)" "k \<notin> us"
      "pa' = dict_set k (info_persona s b) pa" "us' = insert k us" "s' = s"
    | (nuevo) "pa' = dict_set (siguiente_id s) (info_persona s b) pa" "us' = us"
      "s' = s\<lparr> siguiente_id := siguiente_id s + 1 \<rparr>"
    by blast
  then have "(\<forall>k \<in> claves (personas_trackeadas s') \<union> claves pa'. k < siguiente_id s') \<and>
    claves pa' \<inter> claves (personas_trackeadas s') = us' \<and>
    claves pa' \<subseteq> claves pa \<union> us' \<union> {siguiente_id s ..< siguiente_id s'} \<and>
    personas_trackeadas s' = personas_trackeadas s \<and> siguiente_id s \<le> siguiente_id s' \<and>
    us \<subseteq> us'"
  proof cases
    case viejo
    with i j show ?thesis by (auto simp: claves_dict_set)
  next
    case nuevo
    have n: "siguiente_id s \<notin> claves (personas_trackeadas s)" using i by blast
    have l: "k < siguiente_id s + 1" if "k \<in> claves (personas_trackeadas s) \<union> claves pa" for k
    proof -
      from i that have "k < siguiente_id s" by blast
      then show ?thesis by simp
    qed
    from nuevo n l j show ?thesis by (auto simp: claves_dict_set)
  qed
  then show "\<forall>k \<in> claves (personas_trackeadas s') \<union> claves pa'. k < siguiente_id s'"
    and "claves pa' \<inter> claves (personas_trackeadas s') = us'"
    and "claves pa' \<subseteq> claves pa \<union> us' \<union> {siguiente_id s ..< siguiente_id s'}"
    and "personas_trackeadas s' = personas_trackeadas s"
    and "siguiente_id s \<le> siguiente_id s'"
    and "us \<subseteq> us'"
    by blast+
qed

lemma bucle_detecciones_ids:
  "bucle_detecciones s ds (pa, us) = (pa', us', s') \<Longrightarrow>
   \<forall>k \<in> claves (personas_trackeadas s) \<union> claves pa. k < siguiente_id s \<Longrightarrow>
   claves pa \<inter> claves (personas_trackeadas s) = us \<Longrightarrow>
   (\<forall>k \<in> claves (personas_trackeadas s) \<union> claves pa'. k < siguiente_id s') \<and>
   claves pa' \<inter> claves (personas_trackeadas s) = us' \<and>
   claves pa' \<subseteq> claves pa \<union> us' \<union> {siguiente_id s ..< siguiente_id s'} \<and>
   siguiente_id s \<le> siguiente_id s' \<and> us \<subseteq> us'"
proof (induction ds arbitrary: s pa us)
  case Nil
  then show ?case by auto
next
  case (Cons b bs)
  obtain pa1 us1 s1 where a: "asignar_deteccion s b (pa, us) = (pa1, us1, s1)"
    by (cases "asignar_deteccion s b (pa, us)") auto
  with Cons.prems(1) have r: "bucle_detecciones s1 bs (pa1, us1) = (pa', us', s')" by simp
  note f = asignar_deteccion_ids [OF a Cons.prems(2,3)]
  note ih = Cons.IH [OF r f(1,2)]
  have m: "siguiente_id s \<le> siguiente_id s1" "siguiente_id s1 \<le> siguiente_id s'"
    "us \<subseteq> us1" "us1 \<subseteq> us'"
    using ih f(5,6) by simp_all
  have c: "claves pa' \<subseteq> claves pa \<union> us' \<union> {siguiente_id s ..< siguiente_id s'}"
  proof
    fix x
    assume "x \<in> claves pa'"
    with ih have "x \<in> claves pa1 \<or> x \<in> us' \<or> (siguiente_id s1 \<le> x \<and> x < siguiente_id s')"
      by auto
    moreover have "x \<in> claves pa \<or> x \<in> us1 \<or> (siguiente_id s \<le> x \<and> x < siguiente_id s1)"
      if "x \<in> claves pa1" using that f(3) by auto
    ultimately have "x \<in> claves pa \<or> x \<in> us' \<or> (siguiente_id s \<le> x \<and> x < siguiente_id s')"
      using m by auto
    then show "x \<in> claves pa \<union> us' \<union> {siguiente_id s ..< siguiente_id s'}" by auto
  qed
  from ih c m show ?case by (simp add: f(4))
qed


lemma primer_frame:
  "detectar_y_trackear sistema_inicial 600 [(0, 180, 50, 280)] =
     Inr ([(0, persona_en (0, 180, 50, 280))], [],
          sistema_inicial\<lparr> y_cruce := Some 300,
            personas_trackeadas := [(0, persona_en (0, 180, 50, 280))], siguiente_id := 1,
            historial_posicion := [0 \<mapsto> [280]] \<rparr>)"
  by (simp add: detectar_y_trackear_def persona_en_def evaluar_tracking evaluar_cruce fun_eq_iff)

lemma sistema_tras_cruce_eq:
  "sistema_tras_cruce =
     sistema_inicial\<lparr> y_cruce := Some 300,
       personas_trackeadas := [(0, persona_en (0, 210, 50, 310))], siguiente_id := 1,
       historial_posicion := [0 \<mapsto> [280, 310]], ids_cruzados := {0} \<rparr>"
  unfolding sistema_tras_cruce_def primer_frame
  by (simp add: detectar_y_trackear_def persona_en_def evaluar_tracking evaluar_cruce fun_eq_iff)



text \<open>The numbers in use stay below \<open>siguiente_id\<close>: from \<open>__init__\<close> on, through
  \<open>trackear_personas\<close>, through \<open>detectar_cruce_linea\<close> for a tracked identity, and so
  through every frame that \<open>detectar_y_trackear\<close> processes.\<close>

lemma ids_bajo_siguiente_inicial: "ids_bajo_siguiente sistema_inicial"
  by (simp add: ids_bajo_siguiente_def sistema_inicial_def claves_def)

lemma ids_bajo_siguiente_trackear:
  "ids_bajo_siguiente s \<Longrightarrow> ids_bajo_siguiente (snd (trackear_personas s ds))"
proof -
  assume inv: "ids_bajo_siguiente s"
  obtain pa us sb where b: "bucle_detecciones s ds ([], {}) = (pa, us, sb)"
    by (cases "bucle_detecciones s ds ([], {})") auto
  obtain s1 where t: "trackear_personas s ds = (pa, s1)"
    using b by (simp add: trackear_personas_def Let_def)
  note c = trackear_personas_campos [OF t]
  have sb: "siguiente_id s1 = siguiente_id sb"
    using t b by (auto simp: trackear_personas_def Let_def)
  have i0: "\<forall>k \<in> claves (personas_trackeadas s) \<union> claves []. k < siguiente_id s"
    using inv by (simp add: ids_bajo_siguiente_def claves_Nil)
  have j0: "claves [] \<inter> claves (personas_trackeadas s) = {}" by (simp add: claves_Nil)
  from bucle_detecciones_ids [OF b i0 j0] have
    k1: "\<forall>k \<in> claves (personas_trackeadas s) \<union> claves pa. k < siguiente_id sb" by simp
  have "ids_bajo_siguiente s1"
    unfolding ids_bajo_siguiente_def
  proof (intro conjI ballI)
    fix k assume "k \<in> claves (personas_trackeadas s1)"
    with k1 show "k < siguiente_id s1" by (simp add: c(2) sb)
  next
    fix k assume "k \<in> ids_cruzados s1"
    then have "k \<in> ids_cruzados s" by (simp add: c(3))
    with inv have "k < siguiente_id s" by (simp add: ids_bajo_siguiente_def)
    with c(10) show "k < siguiente_id s1" by simp
  next
    fix k assume "k \<in> dom (historial_posicion s1)"
    then have "k \<in> dom (historial_posicion s)" by (auto simp: c(4) split: if_splits)
    moreover have "\<forall>k \<in> dom (historial_posicion s). k < siguiente_id s"
      using inv unfolding ids_bajo_siguiente_def by blast
    ultimately have "k < siguiente_id s" by blast
    with c(10) show "k < siguiente_id s1" by simp
  qed
  with t show ?thesis by simp
qed

lemma ids_bajo_siguiente_detectar:
  "ids_bajo_siguiente s \<Longrightarrow> i \<in> claves (personas_trackeadas s) \<Longrightarrow>
   detectar_cruce_linea s i y = Inr (mov, s1) \<Longrightarrow> ids_bajo_siguiente s1"
proof -
  assume inv: "ids_bajo_siguiente s" and i: "i \<in> claves (personas_trackeadas s)"
    and d: "detectar_cruce_linea s i y = Inr (mov, s1)"
  note c = detectar_cruce_linea_campos [OF d]
  from inv i have l: "i < siguiente_id s" by (simp add: ids_bajo_siguiente_def)
  show ?thesis
    using inv l unfolding ids_bajo_siguiente_def c(2,3,4,5)
    by (auto split: if_splits)
qed

lemma ids_bajo_siguiente_bucle_personas:
  "bucle_personas s ps movs = Inr (movs', s1) \<Longrightarrow> ids_bajo_siguiente s \<Longrightarrow>
   claves ps \<subseteq> claves (personas_trackeadas s) \<Longrightarrow> ids_bajo_siguiente s1"
proof (induction s ps movs rule: bucle_personas.induct)
  case (1 s movimientos)
  then show ?case by simp
next
  case (2 s idp info resto movimientos)
  from "2.prems"(1) obtain mov sa where
    d: "detectar_cruce_linea s idp (snd (pies info)) = Inr (mov, sa)"
    by (auto split: sum.splits)
  from "2.prems"(3) have k: "idp \<in> claves (personas_trackeadas s)"
    and r: "claves resto \<subseteq> claves (personas_trackeadas s)"
    by (auto simp: claves_def)
  have i: "ids_bajo_siguiente sa"
    using ids_bajo_siguiente_detectar [OF "2.prems"(2) k d] .
  have c: "claves resto \<subseteq> claves (personas_trackeadas sa)"
    using r detectar_cruce_linea_campos(2) [OF d] by simp
  show ?case
  proof (cases mov)
    case None
    with "2.prems"(1) d have "bucle_personas sa resto movimientos = Inr (movs', s1)" by simp
    from "2.IH"(1) [OF d refl None this i c] show ?thesis .
  next
    case (Some m)
    with "2.prems"(1) d have
      "bucle_personas sa resto
         (movimientos @ [(m, clasificacion info, altura_px info, altura_cm info)]) = Inr (movs', s1)"
      by simp
    from "2.IH"(2) [OF d refl Some this i c] show ?thesis .
  qed
qed

lemma ids_bajo_siguiente_frame:
  assumes "detectar_y_trackear s altura ds = Inr (personas, movs, s1)"
    and "ids_bajo_siguiente s"
  shows "ids_bajo_siguiente s1"
proof -
  define s0 where "s0 = (if y_cruce s = None
                then s\<lparr> y_cruce := Some (py_int (real_of_int altura * posicion_y_cruce s)) \<rparr>
                else s)"
  have i0: "ids_bajo_siguiente s0"
    using assms(2) by (simp add: s0_def ids_bajo_siguiente_def)
  obtain pa s2 where t: "trackear_personas s0 ds = (pa, s2)"
    by (cases "trackear_personas s0 ds") auto
  have i2: "ids_bajo_siguiente s2"
    using ids_bajo_siguiente_trackear [OF i0, of ds] t by simp
  show ?thesis
  proof (cases "modo_calibracion s2")
    case True
    with assms(1) t have "s1 = s2"
      unfolding detectar_y_trackear_def s0_def [symmetric] Let_def by simp
    with i2 show ?thesis by simp
  next
    case False
    with assms(1) t obtain movs' where b: "bucle_personas s2 pa [] = Inr (movs', s1)"
      unfolding detectar_y_trackear_def s0_def [symmetric] Let_def
      by (auto split: sum.splits)
    have "claves pa \<subseteq> claves (personas_trackeadas s2)"
      using trackear_personas_campos(2) [OF t] by simp
    from ids_bajo_siguiente_bucle_personas [OF b i2 this] show ?thesis .
  qed
qed

section \<open>One movement per identity\<close>

lemma eventos_de_Cons:
  "eventos_de i ((j, mov) # res) =
     (case mov of Some m \<Rightarrow> if j = i then m # eventos_de i res else eventos_de i res
      | None \<Rightarrow> eventos_de i res)"
  by (simp add: eventos_de_def split: option.splits)

lemma eventos_de_Nil: "eventos_de i [] = []"
  by (simp add: eventos_de_def)

lemma ejecutar_pasos_total:
  "y_cruce s = Some l \<Longrightarrow> \<exists>res s1. ejecutar_pasos s ps = Inr (res, s1)"
proof (induction s ps rule: ejecutar_pasos.induct)
  case (1 s)
  then show ?case by simp
next
  case (2 s i y ps)
  from detectar_cruce_linea_total [OF "2.prems"] obtain mov s1
    where d: "detectar_cruce_linea s i y = Inr (mov, s1)" by blast
  then have "y_cruce s1 = Some l" using "2.prems" detectar_cruce_linea_campos(1) by metis
  from "2.IH" [OF d refl this] d show ?case by auto
next
  case (3 s ds ps)
  have "y_cruce (snd (trackear_personas s ds)) = Some l"
    using trackear_personas_campos(1) [of s ds] "3.prems" by (cases "trackear_personas s ds") auto
  from "3.IH" [OF this] show ?case by simp
qed

lemma ejecutar_pasos_eventos:
  "ejecutar_pasos s ps = Inr (res, s1) \<Longrightarrow> sigue_viva i s ps \<Longrightarrow>
   (i \<in> ids_cruzados s \<longrightarrow> eventos_de i res = [] \<and> i \<in> ids_cruzados s1) \<and>
   (i \<notin> ids_cruzados s \<longrightarrow>
      length (eventos_de i res) = (if i \<in> ids_cruzados s1 then 1 else 0))"
proof (induction s ps arbitrary: res rule: ejecutar_pasos.induct)
  case (1 s)
  then show ?case by (auto simp: eventos_de_Nil)
next
  case (2 s j y ps)
  from "2.prems"(1) obtain mov sa res' where
    d: "detectar_cruce_linea s j y = Inr (mov, sa)" and
    r: "ejecutar_pasos sa ps = Inr (res', s1)" and e: "res = (j, mov) # res'"
    by (auto split: sum.splits)
  from "2.prems"(2) d have v: "sigue_viva i sa ps" by simp
  note ih = "2.IH" [OF d refl r v]
  note c = detectar_cruce_linea_campos(5,6) [OF d]
  show ?case
  proof (cases mov)
    case None
    with c ih e show ?thesis by (simp add: eventos_de_Cons)
  next
    case (Some m)
    with c have n: "j \<notin> ids_cruzados s" and a: "ids_cruzados sa = insert j (ids_cruzados s)"
      by simp_all
    show ?thesis
    proof (cases "j = i")
      case True
      with n a ih e Some show ?thesis by (simp add: eventos_de_Cons)
    next
      case False
      with n a ih e Some show ?thesis by (simp add: eventos_de_Cons)
    qed
  qed
next
  case (3 s ds ps)
  obtain pa sa where t: "trackear_personas s ds = (pa, sa)"
    by (cases "trackear_personas s ds") auto
  with "3.prems" have r: "ejecutar_pasos sa ps = Inr (res, s1)" and v: "sigue_viva i sa ps"
    and k: "i \<in> claves pa" by simp_all
  from "3.IH" [of res] r v t have ih:
    "(i \<in> ids_cruzados sa \<longrightarrow> eventos_de i res = [] \<and> i \<in> ids_cruzados s1) \<and>
     (i \<notin> ids_cruzados sa \<longrightarrow>
        length (eventos_de i res) = (if i \<in> ids_cruzados s1 then 1 else 0))" by simp
  have "i \<in> ids_cruzados sa \<longleftrightarrow> i \<in> ids_cruzados s"
    using trackear_personas_campos(3) [OF t] k by simp
  with ih show ?case by simp
qed

text \<open>
  C1: along any steps (calls of \<open>detectar_cruce_linea\<close> for any identities and calls of
  \<open>trackear_personas\<close>) during which the identity \<open>i\<close> is not retired, the steps all
  return, and at most one call for \<open>i\<close> returns a movement. When \<open>i\<close> starts outside
  \<open>ids_cruzados\<close>, it is in \<open>ids_cruzados\<close> at the end iff exactly one movement was
  returned for it; when it starts inside, no call for it returns a movement and it stays
  inside.
\<close>

theorem un_evento_por_identidad:
  assumes "y_cruce s = Some l" and "sigue_viva i s ps"
  shows "\<exists>res s1. ejecutar_pasos s ps = Inr (res, s1) \<and>
           length (eventos_de i res) \<le> 1 \<and>
           (i \<notin> ids_cruzados s \<longrightarrow> (i \<in> ids_cruzados s1 \<longleftrightarrow> length (eventos_de i res) = 1)) \<and>
           (i \<in> ids_cruzados s \<longrightarrow> eventos_de i res = [] \<and> i \<in> ids_cruzados s1)"
proof -
  from ejecutar_pasos_total [OF assms(1)] obtain res s1
    where r: "ejecutar_pasos s ps = Inr (res, s1)" by blast
  from ejecutar_pasos_eventos [OF r assms(2)] r show ?thesis by auto
qed

theorem un_evento_por_identidad_witness:
  "y_cruce (sistema_inicial\<lparr> y_cruce := Some 300 \<rparr>) = Some 300 \<and>
   sigue_viva 0 (sistema_inicial\<lparr> y_cruce := Some 300 \<rparr>)
     [Trackear [(0, 180, 50, 280)], Observar 0 280, Trackear [(0, 210, 50, 310)],
      Observar 0 310, Observar 0 280, Trackear [(0, 180, 50, 280)], Observar 0 280,
      Observar 0 320] \<and>
   0 \<notin> ids_cruzados (sistema_inicial\<lparr> y_cruce := Some 300 \<rparr>) \<and>
   (\<exists>res s1.
      ejecutar_pasos (sistema_inicial\<lparr> y_cruce := Some 300 \<rparr>)
        [Trackear [(0, 180, 50, 280)], Observar 0 280, Trackear [(0, 210, 50, 310)],
         Observar 0 310, Observar 0 280, Trackear [(0, 180, 50, 280)], Observar 0 280,
         Observar 0 320] = Inr (res, s1) \<and>
      res = [(0, None), (0, Some Entrada), (0, None), (0, None), (0, None)] \<and>
      length (eventos_de 0 res) = 1 \<and> 0 \<in> ids_cruzados s1)"
proof -
  let ?s = "sistema_inicial\<lparr> y_cruce := Some 300 \<rparr>"
  let ?ps = "[Trackear [(0, 180, 50, 280)], Observar 0 280, Trackear [(0, 210, 50, 310)],
      Observar 0 310, Observar 0 280, Trackear [(0, 180, 50, 280)], Observar 0 280,
      Observar 0 320]"
  have y: "y_cruce ?s = Some 300" by simp
  have v: "sigue_viva 0 ?s ?ps"
    by (simp add: evaluar_tracking evaluar_cruce)
  have n: "0 \<notin> ids_cruzados ?s" by (simp add: sistema_inicial_def)
  have e: "map_sum id fst (ejecutar_pasos ?s ?ps)
             = Inr [(0, None), (0, Some Entrada), (0, None), (0, None), (0, None)]"
    by (simp add: evaluar_tracking evaluar_cruce)
  from un_evento_por_identidad [OF y v] obtain res s1 where
    r: "ejecutar_pasos ?s ?ps = Inr (res, s1)" and
    c: "0 \<notin> ids_cruzados ?s \<longrightarrow> (0 \<in> ids_cruzados s1 \<longleftrightarrow> length (eventos_de 0 res) = 1)"
    by blast
  from r e have res: "res = [(0, None), (0, Some Entrada), (0, None), (0, None), (0, None)]"
    by simp
  then have l: "length (eventos_de 0 res) = 1" by (simp add: eventos_de_def)
  with c n have "0 \<in> ids_cruzados s1" by simp
  with y v n r res l show ?thesis by blast
qed

section \<open>Frames in calibration mode\<close>

lemma estimar_altura_real_siguiente_id:
  "estimar_altura_real (s\<lparr> siguiente_id := n \<rparr>) h = estimar_altura_real s h"
  by (simp add: estimar_altura_real_def cong: if_cong)

lemma clasificar_persona_siguiente_id:
  "clasificar_persona (s\<lparr> siguiente_id := n \<rparr>) h w = clasificar_persona s h w"
  by (simp only: clasificar_persona_def estimar_altura_real_siguiente_id)

lemma info_persona_siguiente_id:
  "info_persona (s\<lparr> siguiente_id := n \<rparr>) b = info_persona s b"
  by (simp only: info_persona_def clasificar_persona_siguiente_id)

lemma set_dict_set: "set (dict_set k v kvs) \<subseteq> insert (k, v) (set kvs)"
proof (induction kvs)
  case Nil
  then show ?case by simp
next
  case (Cons x kvs)
  obtain k' v' where x: "x = (k', v')" by (cases x) auto
  from Cons show ?case unfolding x by (cases "k = k'") auto
qed

lemma asignar_deteccion_infos:
  assumes "asignar_deteccion s b (pa, us) = (pa', us', s')"
  shows "set pa' \<subseteq> set pa \<union> {(k, p). p = info_persona s b}"
  using asignar_deteccion_casos [OF assms] set_dict_set [of _ "info_persona s b" pa]
  by auto

lemma bucle_detecciones_infos:
  "bucle_detecciones s ds (pa, us) = (pa', us', s') \<Longrightarrow>
   set pa' \<subseteq> set pa \<union> {(k, p). \<exists>b \<in> set ds. p = info_persona s b}"
proof (induction ds arbitrary: s pa us)
  case Nil
  then show ?case by auto
next
  case (Cons b bs)
  obtain pa1 us1 s1 where a: "asignar_deteccion s b (pa, us) = (pa1, us1, s1)"
    by (cases "asignar_deteccion s b (pa, us)") auto
  with Cons.prems have r: "bucle_detecciones s1 bs (pa1, us1) = (pa', us', s')" by simp
  from asignar_deteccion_campos [OF a] obtain n where s1: "s1 = s\<lparr> siguiente_id := n \<rparr>"
    by blast
  have e: "info_persona s1 c = info_persona s c" for c
    unfolding s1 by (rule info_persona_siguiente_id)
  from Cons.IH [OF r] asignar_deteccion_infos [OF a] show ?case
    by (auto simp: e)
qed

lemma trackear_personas_sin_calibrar:
  assumes "trackear_personas s ds = (pa, s1)" and "\<not> calibrado s"
  shows "\<forall>(i, p) \<in> set pa. clasificacion p = Sin_calibrar \<and> altura_cm p = None"
proof -
  obtain pa' us sb where b: "bucle_detecciones s ds ([], {}) = (pa', us, sb)"
    by (cases "bucle_detecciones s ds ([], {})") auto
  with assms(1) have "pa = pa'" by (auto simp: trackear_personas_def Let_def)
  with bucle_detecciones_infos [OF b] have
    "set pa \<subseteq> {(k, p). \<exists>b \<in> set ds. p = info_persona s b}" by simp
  then show ?thesis
    using assms(2) by (auto simp: info_persona_sin_calibrar)
qed

text \<open>
  C9 (as the code has it): a frame processed in calibration mode reports no movement,
  records nothing (whatever \<open>registrar_movimiento\<close> does) and leaves the counters;
  \<open>detectar_cruce_linea\<close> is not called, so \<open>historial_posicion\<close> and \<open>ids_cruzados\<close>
  change only by the removal of the identities that the tracker retires. Every identity
  is reported \<open>Sin calibrar\<close> when no calibration has been confirmed before; after a
  confirmed calibration the classification goes on with the stored factor.
\<close>

theorem modo_calibracion_sin_cruces:
  assumes "modo_calibracion s"
  shows "\<exists>personas s1.
           detectar_y_trackear s altura ds = Inr (personas, [], s1) \<and>
           procesar_frame reg s altura ds = Inr s1 \<and>
           modo_calibracion s1 \<and>
           total_entradas s1 = total_entradas s \<and> total_salidas s1 = total_salidas s \<and>
           ids_cruzados s1 = ids_cruzados s - (claves (personas_trackeadas s) - claves personas) \<and>
           historial_posicion s1 =
             (\<lambda>k. if k \<in> claves (personas_trackeadas s) - claves personas then None
                  else historial_posicion s k) \<and>
           (\<not> calibrado s \<longrightarrow>
              (\<forall>(i, p) \<in> set personas. clasificacion p = Sin_calibrar \<and> altura_cm p = None))"
proof -
  define s0 where "s0 = (if y_cruce s = None
                then s\<lparr> y_cruce := Some (py_int (real_of_int altura * posicion_y_cruce s)) \<rparr>
                else s)"
  obtain personas s1 where t: "trackear_personas s0 ds = (personas, s1)"
    by (cases "trackear_personas s0 ds") auto
  note c = trackear_personas_campos [OF t]
  have f: "modo_calibracion s0" "total_entradas s0 = total_entradas s"
    "total_salidas s0 = total_salidas s" "ids_cruzados s0 = ids_cruzados s"
    "historial_posicion s0 = historial_posicion s" "calibrado s0 = calibrado s"
    "personas_trackeadas s0 = personas_trackeadas s"
    using assms by (simp_all add: s0_def)
  have m: "modo_calibracion s1" using c(7) f(1) by simp
  have d: "detectar_y_trackear s altura ds = Inr (personas, [], s1)"
    using t m unfolding detectar_y_trackear_def s0_def [symmetric] Let_def by simp
  then have p: "procesar_frame reg s altura ds = Inr s1"
    using m by (simp add: procesar_frame_def)
  have u: "\<not> calibrado s \<longrightarrow>
              (\<forall>(i, p) \<in> set personas. clasificacion p = Sin_calibrar \<and> altura_cm p = None)"
    using trackear_personas_sin_calibrar [OF t] f(6) by simp
  from d p m u c(3,4,8,9) f show ?thesis by (simp cong: if_cong)
qed

theorem modo_calibracion_sin_cruces_witness:
  "modo_calibracion (iniciar_calibracion sistema_tras_cruce 210) \<and>
   \<not> calibrado (iniciar_calibracion sistema_tras_cruce 210) \<and>
   (\<exists>personas s1.
      detectar_y_trackear (iniciar_calibracion sistema_tras_cruce 210) 600 [(0, 180, 50, 280)]
        = Inr (personas, [], s1) \<and>
      procesar_frame registrar_movimiento_ok
        (iniciar_calibracion sistema_tras_cruce 210) 600 [(0, 180, 50, 280)] = Inr s1 \<and>
      personas = [(0, persona_en (0, 180, 50, 280))] \<and>
      clasificacion (persona_en (0, 180, 50, 280)) = Sin_calibrar \<and>
      total_entradas s1 = 0 \<and>
      ids_cruzados s1 = {0} \<and> historial_posicion s1 0 = Some [280, 310])"
proof -
  let ?s = "iniciar_calibracion sistema_tras_cruce 210"
  have m: "modo_calibracion ?s" and n: "\<not> calibrado ?s"
    by (simp_all add: iniciar_calibracion_def sistema_tras_cruce_eq sistema_inicial_def)
  have e: "map_sum id fst (detectar_y_trackear ?s 600 [(0, 180, 50, 280)])
             = Inr [(0, persona_en (0, 180, 50, 280))]"
    by (simp add: detectar_y_trackear_def iniciar_calibracion_def sistema_tras_cruce_eq
        persona_en_def evaluar_tracking sistema_inicial_def)
  have k: "claves (personas_trackeadas ?s) - claves [(0, persona_en (0, 180, 50, 280))] = {}"
    "ids_cruzados ?s = {0}" "historial_posicion ?s 0 = Some [280, 310]" "total_entradas ?s = 0"
    by (simp_all add: iniciar_calibracion_def sistema_tras_cruce_eq sistema_inicial_def claves_def)
  have c: "clasificacion (persona_en (0, 180, 50, 280)) = Sin_calibrar"
    by (simp add: persona_en_def info_persona_sin_calibrar sistema_inicial_def)
  from modo_calibracion_sin_cruces [OF m, of 600 "[(0, 180, 50, 280)]"
      registrar_movimiento_ok]
  obtain personas s1 where
    d: "detectar_y_trackear ?s 600 [(0, 180, 50, 280)] = Inr (personas, [], s1)" and
    p: "procesar_frame registrar_movimiento_ok ?s 600
          [(0, 180, 50, 280)] = Inr s1" and
    t: "total_entradas s1 = total_entradas ?s" and
    x: "ids_cruzados s1 = ids_cruzados ?s - (claves (personas_trackeadas ?s) - claves personas)" and
    h: "historial_posicion s1 =
             (\<lambda>k. if k \<in> claves (personas_trackeadas ?s) - claves personas then None
                  else historial_posicion ?s k)"
    by blast
  from d e have pe: "personas = [(0, persona_en (0, 180, 50, 280))]" by simp
  from x h t have "ids_cruzados s1 = {0}" "historial_posicion s1 0 = Some [280, 310]"
    "total_entradas s1 = 0"
    unfolding pe k(1) by (simp_all add: k(2,3,4))
  with m n d p pe c show ?thesis by blast
qed

text \<open>After the calibration of the door, \<open>iniciar_calibracion\<close> again: in calibration
  mode a box of 100 px is classified \<open>Nino/a\<close> with 100 cm.\<close>

theorem modo_calibracion_clasifica_counterexample:
  "modo_calibracion (iniciar_calibracion sistema_puerta 210) \<and>
   map_sum id (\<lambda>r. map (\<lambda>ip. (fst ip, clasificacion (snd ip), altura_cm (snd ip))) (fst r))
     (detectar_y_trackear (iniciar_calibracion sistema_puerta 210) 600 [(0, 0, 50, 100)])
   = Inr [(0, Nino_a, Some 100)]"
  by (simp add: detectar_y_trackear_def iniciar_calibracion_def sistema_puerta_eq
      evaluar_tracking sistema_inicial_def py_round1_def redondear_par_def)

subsection \<open>Calibration mode inside \<open>ejecutar\<close>\<close>

text \<open>
  \<open>ejecutar\<close> starts the calibration at most once, before its loop, on a new object. In
  its loop calibration mode therefore means that nothing was confirmed yet, and a frame
  processed in calibration mode reports every identity \<open>Sin calibrar\<close>.
\<close>

lemma solo_registra_ok: "solo_registra registrar_movimiento_ok"
  by (simp add: solo_registra_def registrar_movimiento_ok_def split: movimiento.splits)

lemma bucle_personas_campos:
  "bucle_personas s ps movs = Inr (movs', s1) \<Longrightarrow>
   calibrado s1 = calibrado s \<and> modo_calibracion s1 = modo_calibracion s"
proof (induction s ps movs rule: bucle_personas.induct)
  case (1 s movimientos)
  then show ?case by simp
next
  case (2 s idp info resto movimientos)
  from "2.prems" obtain mov sa where
    d: "detectar_cruce_linea s idp (snd (pies info)) = Inr (mov, sa)"
    by (auto split: sum.splits)
  note f = detectar_cruce_linea_campos(7,9) [OF d]
  show ?case
  proof (cases mov)
    case None
    with "2.prems" d have "bucle_personas sa resto movimientos = Inr (movs', s1)" by simp
    from "2.IH"(1) [OF d refl None this] f show ?thesis by simp
  next
    case (Some m)
    with "2.prems" d have
      "bucle_personas sa resto
         (movimientos @ [(m, clasificacion info, altura_px info, altura_cm info)]) = Inr (movs', s1)"
      by simp
    from "2.IH"(2) [OF d refl Some this] f show ?thesis by simp
  qed
qed

lemma detectar_y_trackear_campos:
  assumes "detectar_y_trackear s altura ds = Inr (personas, movs, s1)"
  shows "calibrado s1 = calibrado s \<and> modo_calibracion s1 = modo_calibracion s"
proof -
  define s0 where "s0 = (if y_cruce s = None
                then s\<lparr> y_cruce := Some (py_int (real_of_int altura * posicion_y_cruce s)) \<rparr>
                else s)"
  obtain pa s2 where t: "trackear_personas s0 ds = (pa, s2)"
    by (cases "trackear_personas s0 ds") auto
  have f: "calibrado s2 = calibrado s" "modo_calibracion s2 = modo_calibracion s"
    using trackear_personas_campos(5,7) [OF t] by (simp_all add: s0_def)
  show ?thesis
  proof (cases "modo_calibracion s2")
    case True
    with assms t have "s1 = s2"
      unfolding detectar_y_trackear_def s0_def [symmetric] Let_def by simp
    with f show ?thesis by simp
  next
    case False
    with assms t obtain movs' where "bucle_personas s2 pa [] = Inr (movs', s1)"
      unfolding detectar_y_trackear_def s0_def [symmetric] Let_def
      by (auto split: sum.splits)
    from bucle_personas_campos [OF this] f show ?thesis by simp
  qed
qed

lemma foldl_solo_registra:
  "solo_registra reg \<Longrightarrow>
   calibrado (foldl reg s movs) = calibrado s \<and>
   modo_calibracion (foldl reg s movs) = modo_calibracion s"
proof -
  assume "solo_registra reg"
  then have r: "calibrado (reg s r) = calibrado s"
    "modo_calibracion (reg s r) = modo_calibracion s" for s r
    unfolding solo_registra_def by blast+
  show ?thesis by (induction movs arbitrary: s) (simp_all add: r)
qed

lemma paso_ejecutar_modo:
  assumes "solo_registra reg" and "paso_ejecutar reg s e = Inr s1"
    and "modo_calibracion s \<longrightarrow> \<not> calibrado s"
  shows "modo_calibracion s1 \<longrightarrow> \<not> calibrado s1"
proof (cases e)
  case Tecla_c
  with assms(2,3) show ?thesis
    by (auto simp: confirmar_calibracion_def Let_def split: if_splits option.splits sum.splits)
next
  case Tecla_r
  with assms(2,3) show ?thesis by (auto simp: reiniciar_calibracion_def split: if_splits)
next
  case (Raton ev x y)
  with assms(2,3) show ?thesis by (auto simp: mouse_callback_calibracion_def split: if_splits)
next
  case (Frame altura ds)
  with assms(2) obtain personas movs sa where
    d: "detectar_y_trackear s altura ds = Inr (personas, movs, sa)" and
    s1: "s1 = (if \<not> modo_calibracion sa then foldl reg sa movs else sa)"
    by (auto simp: procesar_frame_def split: sum.splits)
  from detectar_y_trackear_campos [OF d] foldl_solo_registra [OF assms(1), of sa movs] assms(3) s1
  show ?thesis by (auto split: if_splits)
qed

lemma bucle_ejecutar_modo:
  "solo_registra reg \<Longrightarrow> bucle_ejecutar reg s es = Inr s1 \<Longrightarrow>
   modo_calibracion s \<longrightarrow> \<not> calibrado s \<Longrightarrow> modo_calibracion s1 \<longrightarrow> \<not> calibrado s1"
proof (induction es arbitrary: s)
  case Nil
  then show ?case by simp
next
  case (Cons e es)
  from Cons.prems(2) obtain sa where p: "paso_ejecutar reg s e = Inr sa"
    and r: "bucle_ejecutar reg sa es = Inr s1" by (auto split: sum.splits)
  from paso_ejecutar_modo [OF Cons.prems(1) p Cons.prems(3)]
  have "modo_calibracion sa \<longrightarrow> \<not> calibrado sa" .
  from Cons.IH [OF Cons.prems(1) r this] show ?case .
qed

lemma ejecutar_modo_sin_calibrar:
  assumes "solo_registra reg"
    and "s0 = sistema_inicial\<lparr> posicion_y_cruce := p \<rparr> \<or>
         s0 = iniciar_calibracion (sistema_inicial\<lparr> posicion_y_cruce := p \<rparr>) cm"
    and "bucle_ejecutar reg s0 es = Inr s"
    and "modo_calibracion s"
    and "detectar_y_trackear s altura ds = Inr (personas, movs, s1)"
  shows "movs = [] \<and> (\<forall>(i, q) \<in> set personas. clasificacion q = Sin_calibrar \<and> altura_cm q = None)"
proof -
  have "modo_calibracion s0 \<longrightarrow> \<not> calibrado s0"
    using assms(2) by (auto simp: iniciar_calibracion_def sistema_inicial_def)
  from bucle_ejecutar_modo [OF assms(1,3) this] assms(4) have n: "\<not> calibrado s" by simp
  define sa where "sa = (if y_cruce s = None
                then s\<lparr> y_cruce := Some (py_int (real_of_int altura * posicion_y_cruce s)) \<rparr>
                else s)"
  obtain pa s2 where t: "trackear_personas sa ds = (pa, s2)"
    by (cases "trackear_personas sa ds") auto
  have m: "modo_calibracion s2" "\<not> calibrado sa"
    using trackear_personas_campos(7) [OF t] assms(4) n by (simp_all add: sa_def)
  with assms(5) t have e: "personas = pa" "movs = []"
    unfolding detectar_y_trackear_def sa_def [symmetric] Let_def by simp_all
  from trackear_personas_sin_calibrar [OF t m(2)] e show ?thesis by simp
qed

end
